theory Spec2Isabelle
  imports Complex_Main "HOL-Library.Word" "HOL-Library.AList"
begin

unbundle bit_operations_syntax

section \<open>The Phystech Campus dataset adapter (opr/datasets/custom.py)\<close>

text \<open>
  The development embeds \<^verbatim>\<open>PhystechCampus.__init__\<close>, \<^verbatim>\<open>PhystechCampus.__getitem__\<close>
  and \<^verbatim>\<open>PhystechCampus._load_pc\<close>. Python exceptions are values of \<open>error\<close>;
  a function that may raise returns \<open>error + 'a\<close> with \<open>Inl\<close> for the exception.
\<close>

datatype error =
    FileNotFoundError
  | ValueError
  | IndexError
  | KeyError
  | CvError
  | TransformError

definition ebind :: "error + 'a \<Rightarrow> ('a \<Rightarrow> error + 'b) \<Rightarrow> error + 'b" where
  "ebind r f = (case r of Inl e \<Rightarrow> Inl e | Inr v \<Rightarrow> f v)"

text \<open>
  A step that may also change the object it works on takes the object and returns the
  exception or value together with the object after the step; an exception keeps the
  changes made before it.
\<close>

type_synonym ('s, 'a) action = "'s \<Rightarrow> (error + 'a) \<times> 's"

definition sbind :: "('s, 'a) action \<Rightarrow> ('a \<Rightarrow> ('s, 'b) action) \<Rightarrow> ('s, 'b) action" where
  "sbind m f s = (case m s of (Inl e, s') \<Rightarrow> (Inl e, s') | (Inr v, s') \<Rightarrow> f v s')"

definition sreturn :: "error + 'a \<Rightarrow> ('s, 'a) action" where
  "sreturn r s = (r, s)"

subsection \<open>IEEE 754 binary32 values\<close>

text \<open>
  A \<^verbatim>\<open>np.float32\<close> is its 32-bit pattern: bit 31 is the sign, bits 30..23 the biased
  exponent, bits 22..0 the fraction. \<open>f32_value\<close> reads the pattern as the number it
  denotes; comparisons are those of IEEE 754: every comparison with a NaN is false.
\<close>

type_synonym float32 = "32 word"

datatype fval = NaN | NegInf | Fin rat | PosInf

definition f32_sign :: "float32 \<Rightarrow> bool" where
  "f32_sign w = bit w 31"

definition f32_exponent :: "float32 \<Rightarrow> nat" where
  "f32_exponent w = unat (take_bit 8 (drop_bit 23 w))"

definition f32_fraction :: "float32 \<Rightarrow> nat" where
  "f32_fraction w = unat (take_bit 23 w)"

definition f32_magnitude :: "float32 \<Rightarrow> rat" where
  "f32_magnitude w =
     (let e = f32_exponent w; m = f32_fraction w
      in if e = 0 then of_nat m / 2 ^ 149
         else if e < 150 then of_nat (2 ^ 23 + m) / 2 ^ (150 - e)
         else of_nat (2 ^ 23 + m) * 2 ^ (e - 150))"

definition f32_value :: "float32 \<Rightarrow> fval" where
  "f32_value w =
     (if f32_exponent w = 255
      then (if f32_fraction w \<noteq> 0 then NaN else if f32_sign w then NegInf else PosInf)
      else Fin (if f32_sign w then - f32_magnitude w else f32_magnitude w))"

fun fval_le :: "fval \<Rightarrow> fval \<Rightarrow> bool" where
  "fval_le NaN _ = False"
| "fval_le _ NaN = False"
| "fval_le NegInf _ = True"
| "fval_le _ PosInf = True"
| "fval_le (Fin a) (Fin b) = (a \<le> b)"
| "fval_le _ _ = False"

subsection \<open>The numpy operations of \<^verbatim>\<open>_load_pc\<close>\<close>

text \<open>
  A two-dimensional array is the list of its rows. The Python integer scalar of
  \<^verbatim>\<open>-100 <= pc\<close> and \<^verbatim>\<open>pc <= 100\<close> is compared by value with every element.
\<close>

type_synonym array2 = "float32 list list"

fun rows4 :: "'a list \<Rightarrow> 'a list list" where
  "rows4 (a # b # c # d # xs) = [a, b, c, d] # rows4 xs"
| "rows4 _ = []"

definition reshape4 :: "'a list \<Rightarrow> error + 'a list list" where
  \<comment> \<open>\<^verbatim>\<open>.reshape((-1, 4))\<close>: the size must be a multiple of 4, else ValueError\<close>
  "reshape4 xs = (if length xs mod 4 = 0 then Inr (rows4 xs) else Inl ValueError)"

definition drop_last_column :: "'a list list \<Rightarrow> 'a list list" where
  \<comment> \<open>\<^verbatim>\<open>[:, :-1]\<close>\<close>
  "drop_last_column a = map butlast a"

definition scalar_le :: "int \<Rightarrow> array2 \<Rightarrow> bool list list" where
  \<comment> \<open>\<^verbatim>\<open>c <= pc\<close>\<close>
  "scalar_le c a = map (map (\<lambda>v. fval_le (Fin (of_int c)) (f32_value v))) a"

definition le_scalar :: "array2 \<Rightarrow> int \<Rightarrow> bool list list" where
  \<comment> \<open>\<^verbatim>\<open>pc <= c\<close>\<close>
  "le_scalar a c = map (map (\<lambda>v. fval_le (f32_value v) (Fin (of_int c)))) a"

definition logical_and :: "bool list list \<Rightarrow> bool list list \<Rightarrow> bool list list" where
  "logical_and p q = map2 (map2 (\<and>)) p q"

definition all_axis1 :: "bool list list \<Rightarrow> bool list" where
  \<comment> \<open>\<^verbatim>\<open>np.all(..., axis=1)\<close>\<close>
  "all_axis1 m = map (list_all (\<lambda>b. b)) m"

definition mask_select :: "'a list \<Rightarrow> bool list \<Rightarrow> 'a list" where
  \<comment> \<open>\<^verbatim>\<open>pc[in_range_idx]\<close> with a boolean index of the same length\<close>
  "mask_select a m = map fst (filter snd (zip a m))"

definition load_pc :: "('p \<Rightarrow> error + float32 list) \<Rightarrow> 'p \<Rightarrow> error + array2" where
  \<comment> \<open>\<^verbatim>\<open>_load_pc\<close>; the first argument is \<^verbatim>\<open>np.fromfile(_, dtype=np.float32)\<close>\<close>
  "load_pc fromfile filepath =
     ebind (fromfile filepath) (\<lambda>flat.
     ebind (reshape4 flat) (\<lambda>rows.
       let pc = drop_last_column rows;
           in_range_idx = all_axis1 (logical_and (scalar_le (- 100) pc) (le_scalar pc 100));
           pc = mask_select pc in_range_idx
       in Inr pc))"

subsection \<open>The row index: a pandas DataFrame\<close>

text \<open>
  A row (\<^verbatim>\<open>Series\<close>) is the list of its columns with their cells, a table the list of its
  rows. \<^verbatim>\<open>df.iloc[i]\<close> is positional: as for a Python sequence a negative position counts
  from the end, and a position outside \<open>[-n, n)\<close> raises IndexError.
  \<^verbatim>\<open>df[c] = v\<close> with a scalar sets the column in every row, in place when the column
  exists and as a new last column otherwise.
\<close>

datatype cell = IntCell int | FloatCell "64 word" | StrCell string | BoolCell bool

type_synonym series = "(string \<times> cell) list"

type_synonym dataframe = "series list"

definition iloc :: "dataframe \<Rightarrow> int \<Rightarrow> error + series" where
  "iloc df idx =
     (let n = int (length df)
      in if idx < - n \<or> n \<le> idx then Inl IndexError
         else Inr (df ! nat (if idx < 0 then idx + n else idx)))"

definition getcol :: "series \<Rightarrow> string \<Rightarrow> error + cell" where
  \<comment> \<open>\<^verbatim>\<open>row[c]\<close>\<close>
  "getcol row c = (case map_of row c of None \<Rightarrow> Inl KeyError | Some v \<Rightarrow> Inr v)"

definition setitem_column :: "dataframe \<Rightarrow> string \<Rightarrow> cell \<Rightarrow> dataframe" where
  \<comment> \<open>\<^verbatim>\<open>df[c] = v\<close>\<close>
  "setitem_column df c v = map (AList.update c v) df"

subsection \<open>Library calls\<close>

text \<open>
  The calls into pathlib, numpy, OpenCV and the transforms of
  \<^verbatim>\<open>opr.datasets.augmentations\<close> are parameters of the model: \<open>'p\<close> is
  \<^verbatim>\<open>pathlib.Path\<close>, \<open>'img\<close> a decoded image, \<open>'ten\<close> a tensor. \<^verbatim>\<open>cv2.imread\<close> returns
  \<^verbatim>\<open>None\<close> for a file it cannot read, and the next OpenCV call raises on it. \<open>'tf\<close> is a
  transform object: a constructor builds it from the \<^verbatim>\<open>train\<close> flag, and calling it on an
  image gives the exception or tensor and the object as the call leaves it.
\<close>

record ('p, 'img, 'ten, 'tf) env =
  path_of_str :: "string \<Rightarrow> 'p"
  path_join :: "'p \<Rightarrow> 'p \<Rightarrow> 'p"
  path_str :: "'p \<Rightarrow> string"
  py_str :: "cell \<Rightarrow> string"
  as_float32 :: "cell \<Rightarrow> error + float32"
  fromfile :: "'p \<Rightarrow> error + float32 list"
  imread :: "string \<Rightarrow> 'img option"
  imread_gray :: "string \<Rightarrow> 'img option"
  cvtColor_BGR2RGB :: "'img option \<Rightarrow> error + 'img"
  resize_128 :: "'img option \<Rightarrow> error + 'img"
  DefaultImageTransform :: "bool \<Rightarrow> 'tf"
  DefaultCloudTransform :: "bool \<Rightarrow> 'tf"
  DefaultCloudSetTransform :: "bool \<Rightarrow> 'tf"
  DefaultSemanticTransform :: "bool \<Rightarrow> 'tf"
  transform_call :: "'tf \<Rightarrow> 'img \<Rightarrow> (error + 'ten) \<times> 'tf"
  tensor_float :: "'ten \<Rightarrow> 'ten"

subsection \<open>The dataset object\<close>

datatype 'p pathlike = PyStr string | PyPath 'p

definition truthy :: "'p pathlike option \<Rightarrow> bool" where
  \<comment> \<open>\<^verbatim>\<open>if subdir:\<close> for an \<^verbatim>\<open>Optional[Union[str, Path]]\<close>\<close>
  "truthy a = (case a of None \<Rightarrow> False | Some (PyStr s) \<Rightarrow> s \<noteq> [] | Some (PyPath p) \<Rightarrow> True)"

definition mkPath :: "('p, 'img, 'ten, 'tf) env \<Rightarrow> 'p pathlike \<Rightarrow> 'p" where
  \<comment> \<open>\<^verbatim>\<open>Path(subdir)\<close>\<close>
  "mkPath E a = (case a of PyStr s \<Rightarrow> path_of_str E s | PyPath p \<Rightarrow> p)"

record ('p, 'tf) dataset =
  dataset_root :: 'p
  subset_attr :: string
  modalities :: "string list"
  dataset_df :: dataframe
  images_subdir :: "'p option"
  clouds_subdir :: "'p option"
  semantic_front_subdir :: "'p option"
  semantic_back_subdir :: "'p option"
  mink_quantization_size :: "64 word option"
  image_transform :: 'tf
  cloud_transform :: 'tf
  cloud_set_transform :: 'tf
  semantic_transform :: 'tf

datatype 'ten pyvalue = IntV int | Vec "float32 list" | Cloud array2 | Tensor 'ten

type_synonym 'ten sample = "string \<rightharpoonup> 'ten pyvalue"

subsection \<open>\<^verbatim>\<open>PhystechCampus.__init__\<close>\<close>

text \<open>
  \<open>base\<close> is what \<^verbatim>\<open>super().__init__(dataset_root, subset, modalities)\<close> did: the
  exception it raised, or the object with the attributes it has set (the root, the subset,
  the modalities and the table among them). \<open>subset_arg\<close> is the constructor's own argument,
  which the transforms are built from. A subdirectory attribute holds \<open>None\<close> for Python's
  \<^verbatim>\<open>None\<close>, also where only the superclass has assigned it.
\<close>

definition set_pcd :: "('p, 'img, 'ten, 'tf) env \<Rightarrow> ('p, 'tf) dataset \<Rightarrow> ('p, 'tf) dataset" where
  "set_pcd E self =
     (if ''cloud'' \<in> set (modalities self)
      then self\<lparr>clouds_subdir := Some (path_of_str E ''pcd'')\<rparr> else self)"

definition set_images_subdir ::
  "('p, 'img, 'ten, 'tf) env \<Rightarrow> 'p pathlike option \<Rightarrow> ('p, 'tf) dataset \<Rightarrow> error + ('p, 'tf) dataset" where
  "set_images_subdir E images_subdir_arg self =
     (if ''image'' \<in> set (modalities self)
      then (case images_subdir_arg of
              Some a \<Rightarrow> if truthy (Some a)
                        then Inr (self\<lparr>images_subdir := Some (mkPath E a)\<rparr>)
                        else Inl ValueError
            | None \<Rightarrow> Inl ValueError)
      else Inr self)"

definition set_semantic_subdirs ::
  "('p, 'img, 'ten, 'tf) env \<Rightarrow> 'p pathlike option \<Rightarrow> 'p pathlike option \<Rightarrow> ('p, 'tf) dataset \<Rightarrow> ('p, 'tf) dataset" where
  "set_semantic_subdirs E front_arg back_arg self =
     (if ''semantic'' \<in> set (modalities self)
      then (let self = (case front_arg of
                          Some a \<Rightarrow> if truthy (Some a)
                                    then self\<lparr>semantic_front_subdir := Some (mkPath E a)\<rparr>
                                    else self
                        | None \<Rightarrow> self)
            in (case back_arg of
                  Some a \<Rightarrow> if truthy (Some a)
                            then self\<lparr>semantic_back_subdir := Some (mkPath E a)\<rparr>
                            else self
                | None \<Rightarrow> self))
      else self)"

definition set_in_query :: "('p, 'tf) dataset \<Rightarrow> ('p, 'tf) dataset" where
  "set_in_query self =
     (if subset_attr self = ''test''
      then self\<lparr>dataset_df := setitem_column (dataset_df self) ''in_query'' (BoolCell True)\<rparr>
      else self)"

definition PhystechCampus_init ::
  "('p, 'img, 'ten, 'tf) env \<Rightarrow> error + ('p, 'tf) dataset \<Rightarrow> string \<Rightarrow> 'p pathlike option \<Rightarrow>
     'p pathlike option \<Rightarrow> 'p pathlike option \<Rightarrow> 64 word option \<Rightarrow> error + ('p, 'tf) dataset" where
  "PhystechCampus_init E base subset_arg images_subdir_arg semantic_front_arg semantic_back_arg mink =
     ebind base (\<lambda>self.
     ebind (set_images_subdir E images_subdir_arg (set_pcd E self)) (\<lambda>self.
       let self = set_semantic_subdirs E semantic_front_arg semantic_back_arg self;
           self = self\<lparr>clouds_subdir := Some (path_of_str E ''lidar'')\<rparr>;
           self = self\<lparr>mink_quantization_size := mink\<rparr>;
           self = set_in_query self
       in Inr (self\<lparr>image_transform := DefaultImageTransform E (subset_arg = ''train''),
                      cloud_transform := DefaultCloudTransform E (subset_arg = ''train''),
                      cloud_set_transform := DefaultCloudSetTransform E (subset_arg = ''train''),
                      semantic_transform := DefaultSemanticTransform E (subset_arg = ''train'')\<rparr>)))"

subsection \<open>\<^verbatim>\<open>PhystechCampus.__getitem__\<close>\<close>

text \<open>
  \<^verbatim>\<open>p / s\<close> with a string \<open>s\<close> joins \<open>p\<close> with \<^verbatim>\<open>Path(s)\<close>. A \<^verbatim>\<open>Path\<close> is always true in a
  condition, so \<^verbatim>\<open>if self.semantic_front_subdir:\<close> tests for \<^verbatim>\<open>None\<close>. The result comes
  with the object after the call: the code assigns no attribute, and a transform object
  held in an attribute is the one thing a call may have changed.
\<close>

definition utm_of :: "('p, 'img, 'ten, 'tf) env \<Rightarrow> series \<Rightarrow> error + float32 list" where
  \<comment> \<open>\<^verbatim>\<open>row[["northing", "easting"]].to_numpy(dtype=np.float32)\<close>\<close>
  "utm_of E row =
     ebind (getcol row ''northing'') (\<lambda>n.
     ebind (getcol row ''easting'') (\<lambda>e.
     ebind (as_float32 E n) (\<lambda>n32.
     ebind (as_float32 E e) (\<lambda>e32. Inr [n32, e32]))))"

definition call_image_transform ::
  "('p, 'img, 'ten, 'tf) env \<Rightarrow> 'img \<Rightarrow> (('p, 'tf) dataset, 'ten) action" where
  \<comment> \<open>\<^verbatim>\<open>self.image_transform(im)\<close>\<close>
  "call_image_transform E im self =
     (case transform_call E (image_transform self) im of
        (r, t) \<Rightarrow> (r, self\<lparr>image_transform := t\<rparr>))"

definition call_semantic_transform ::
  "('p, 'img, 'ten, 'tf) env \<Rightarrow> 'img \<Rightarrow> (('p, 'tf) dataset, 'ten) action" where
  \<comment> \<open>\<^verbatim>\<open>self.semantic_transform(mask)\<close>\<close>
  "call_semantic_transform E im self =
     (case transform_call E (semantic_transform self) im of
        (r, t) \<Rightarrow> (r, self\<lparr>semantic_transform := t\<rparr>))"

definition add_image ::
  "('p, 'img, 'ten, 'tf) env \<Rightarrow> 'p \<Rightarrow> series \<Rightarrow> 'ten sample \<Rightarrow>
     (('p, 'tf) dataset, 'ten sample) action" where
  "add_image E track_dir row data self =
     (case (if ''image'' \<in> set (modalities self) then images_subdir self else None) of
        None \<Rightarrow> (Inr data, self)
      | Some subdir \<Rightarrow>
          sbind (sreturn (getcol row (path_str E subdir @ ''_ts''))) (\<lambda>ts.
            let im_filepath = path_join E (path_join E track_dir subdir)
                                (path_of_str E (py_str E ts @ ''.png''));
                im = imread E (path_str E im_filepath)
            in sbind (sreturn (cvtColor_BGR2RGB E im)) (\<lambda>im.
               sbind (call_image_transform E im) (\<lambda>im.
               sreturn (Inr (data(''image'' \<mapsto> Tensor im)))))) self)"

definition add_cloud ::
  "('p, 'img, 'ten, 'tf) env \<Rightarrow> 'p \<Rightarrow> series \<Rightarrow> 'ten sample \<Rightarrow>
     (('p, 'tf) dataset, 'ten sample) action" where
  "add_cloud E track_dir row data self =
     (case (if ''cloud'' \<in> set (modalities self) then clouds_subdir self else None) of
        None \<Rightarrow> (Inr data, self)
      | Some subdir \<Rightarrow>
          sbind (sreturn (getcol row ''lidar_ts'')) (\<lambda>ts.
            let pc_filepath = path_join E (path_join E track_dir subdir)
                                (path_of_str E (py_str E ts @ ''.bin''))
            in sbind (sreturn (load_pc (fromfile E) pc_filepath)) (\<lambda>pc.
               sreturn (Inr (data(''cloud'' \<mapsto> Cloud pc))))) self)"

definition add_mask ::
  "('p, 'img, 'ten, 'tf) env \<Rightarrow> 'p \<Rightarrow> series \<Rightarrow> 'p option \<Rightarrow> string \<Rightarrow> string \<Rightarrow>
     'ten sample \<Rightarrow> (('p, 'tf) dataset, 'ten sample) action" where
  \<comment> \<open>one sub-channel of the semantic modality: its subdirectory, timestamp column and key\<close>
  "add_mask E track_dir row subdir_attr ts_column key data self =
     (case subdir_attr of
        None \<Rightarrow> (Inr data, self)
      | Some subdir \<Rightarrow>
          sbind (sreturn (getcol row ts_column)) (\<lambda>ts.
            let im_filepath = path_join E (path_join E track_dir subdir)
                                (path_of_str E (py_str E ts @ ''.png''));
                mask = imread_gray E (path_str E im_filepath)
            in sbind (sreturn (resize_128 E mask)) (\<lambda>mask.
               sbind (call_semantic_transform E mask) (\<lambda>mask.
               sreturn (Inr (data(key \<mapsto> Tensor (tensor_float E mask))))))) self)"

definition add_semantic ::
  "('p, 'img, 'ten, 'tf) env \<Rightarrow> 'p \<Rightarrow> series \<Rightarrow> 'ten sample \<Rightarrow>
     (('p, 'tf) dataset, 'ten sample) action" where
  "add_semantic E track_dir row data self =
     (if ''semantic'' \<in> set (modalities self)
         \<and> (semantic_front_subdir self \<noteq> None \<or> semantic_back_subdir self \<noteq> None)
      then sbind (\<lambda>self. add_mask E track_dir row (semantic_front_subdir self)
                           ''front_cam_ts'' ''semantic_front'' data self) (\<lambda>data self.
             add_mask E track_dir row (semantic_back_subdir self)
               ''back_cam_ts'' ''semantic_back'' data self) self
      else (Inr data, self))"

definition getitem ::
  "('p, 'img, 'ten, 'tf) env \<Rightarrow> ('p, 'tf) dataset \<Rightarrow> int \<Rightarrow>
     (error + 'ten sample) \<times> ('p, 'tf) dataset" where
  "getitem E self idx =
     (let data = [''idx'' \<mapsto> IntV idx]
      in sbind (\<lambda>self. (iloc (dataset_df self) idx, self)) (\<lambda>row.
         sbind (sreturn (utm_of E row)) (\<lambda>utm.
           let data = data(''utm'' \<mapsto> Vec utm)
           in sbind (sreturn (getcol row ''track'')) (\<lambda>track.
              sbind (\<lambda>self. (Inr (path_join E (dataset_root self)
                                      (path_of_str E (py_str E track))), self)) (\<lambda>track_dir.
              sbind (add_image E track_dir row data) (\<lambda>data.
              sbind (add_cloud E track_dir row data) (\<lambda>data.
              add_semantic E track_dir row data)))))) self)"

text \<open>
  \<open>only_transforms_changed a b\<close>: the object \<open>b\<close> is the object \<open>a\<close> except, possibly, for the
  image and the semantic transform objects, the two that \<^verbatim>\<open>__getitem__\<close> calls.
\<close>

definition only_transforms_changed :: "('p, 'tf) dataset \<Rightarrow> ('p, 'tf) dataset \<Rightarrow> bool" where
  "only_transforms_changed a b =
     (b = a\<lparr>image_transform := image_transform b, semantic_transform := semantic_transform b\<rparr>)"

subsection \<open>The point-cloud filter as the specification words it\<close>

text \<open>
  The file is a sequence of records of four floats (x, y, z and a fourth value); a
  coordinate is in range when it denotes a finite number of the closed interval
  \<open>[-100, 100]\<close>; a record passes when its three coordinates are in range; the cloud is the
  records that pass, in the order of the file, each cut to its three coordinates.
\<close>

definition records4 :: "'a list \<Rightarrow> 'a list list" where
  "records4 flat =
     map (\<lambda>i. [flat ! (4 * i), flat ! (4 * i + 1), flat ! (4 * i + 2), flat ! (4 * i + 3)])
       [0..<length flat div 4]"

definition in_closed_interval :: "float32 \<Rightarrow> bool" where
  "in_closed_interval v = (case f32_value v of Fin q \<Rightarrow> - 100 \<le> q \<and> q \<le> 100 | _ \<Rightarrow> False)"

definition passes_range_test :: "float32 list \<Rightarrow> bool" where
  "passes_range_test r =
     (in_closed_interval (r ! 0) \<and> in_closed_interval (r ! 1) \<and> in_closed_interval (r ! 2))"

definition spec_cloud :: "float32 list \<Rightarrow> array2" where
  "spec_cloud flat = map (take 3) (filter passes_range_test (records4 flat))"

subsection \<open>Example inputs\<close>

text \<open>
  The floats \<open>0x3F800000\<close>, \<open>0x40000000\<close>, \<open>0x40400000\<close> and \<open>0x43480000\<close> are 1, 2, 3
  and 200.
\<close>

definition ex_floats :: "float32 list" where
  "ex_floats = [0x3F800000, 0x40000000, 0x40400000, 0, 0x43480000, 0, 0, 0]"

definition ex_repeated :: "float32 list" where
  "ex_repeated = [0x40400000, 0x40000000, 0x3F800000, 0, 0x43480000, 0, 0, 0,
                  0x3F800000, 0x40000000, 0x40400000, 0, 0x40400000, 0x40000000, 0x3F800000, 0]"

definition ex_rd :: "string \<Rightarrow> error + float32 list" where
  "ex_rd p = (if p = ''/data/3/lidar/1000.bin'' then Inr ex_floats
              else if p = ''repeated.bin'' then Inr ex_repeated
              else if p = ''empty.bin'' then Inr []
              else if p = ''short.bin'' then Inr [0x3F800000, 0x40000000, 0x40400000]
              else Inl FileNotFoundError)"

definition ex_cloud :: array2 where
  "ex_cloud = [[0x3F800000, 0x40000000, 0x40400000]]"

text \<open>
  An example environment: paths are strings joined with a slash, the file system holds the
  point cloud \<^verbatim>\<open>/data/3/lidar/1000.bin\<close> and the mask
  \<^verbatim>\<open>/data/3/labels/front_cam/1000.png\<close>, the table has one row (track 3, northing 1.0,
  easting 2.0 as float64 patterns, timestamps 1000). \<open>ex_self\<close> and \<open>ex_self_semantic\<close>
  are the objects the constructor builds for the test subset with the cloud modality and
  for the validation subset with the semantic modality and no back subdirectory. A
  transform object is the flag it was built with, and a call leaves it as it is.
\<close>

definition ex_py_str :: "cell \<Rightarrow> string" where
  "ex_py_str c = (case c of
       IntCell i \<Rightarrow> (if i = 3 then ''3'' else if i = 1000 then ''1000'' else ''0'')
     | StrCell s \<Rightarrow> s
     | BoolCell b \<Rightarrow> (if b then ''True'' else ''False'')
     | FloatCell w \<Rightarrow> ''nan'')"

definition ex_as_float32 :: "cell \<Rightarrow> error + float32" where
  "ex_as_float32 c = (case c of
       FloatCell w \<Rightarrow> (if w = 0x3FF0000000000000 then Inr 0x3F800000
                        else if w = 0x4000000000000000 then Inr 0x40000000
                        else Inr 0)
     | _ \<Rightarrow> Inl ValueError)"

definition ex_env :: "(string, nat, nat, bool) env" where
  "ex_env = \<lparr>path_of_str = (\<lambda>s. s),
             path_join = (\<lambda>a b. a @ ''/'' @ b),
             path_str = (\<lambda>p. p),
             py_str = ex_py_str,
             as_float32 = ex_as_float32,
             fromfile = ex_rd,
             imread = (\<lambda>p. None),
             imread_gray = (\<lambda>p. if p = ''/data/3/labels/front_cam/1000.png'' then Some 7 else None),
             cvtColor_BGR2RGB = (\<lambda>im. case im of None \<Rightarrow> Inl CvError | Some x \<Rightarrow> Inr x),
             resize_128 = (\<lambda>im. case im of None \<Rightarrow> Inl CvError | Some x \<Rightarrow> Inr x),
             DefaultImageTransform = (\<lambda>train. train),
             DefaultCloudTransform = (\<lambda>train. train),
             DefaultCloudSetTransform = (\<lambda>train. train),
             DefaultSemanticTransform = (\<lambda>train. train),
             transform_call = (\<lambda>t im. (Inr im, t)),
             tensor_float = (\<lambda>t. t)\<rparr>"

definition ex_row :: series where
  "ex_row = [(''track'', IntCell 3), (''northing'', FloatCell 0x3FF0000000000000),
             (''easting'', FloatCell 0x4000000000000000), (''front_cam_ts'', IntCell 1000),
             (''lidar_ts'', IntCell 1000)]"

definition ex_base :: "string \<Rightarrow> string list \<Rightarrow> (string, bool) dataset" where
  "ex_base sub ms = \<lparr>dataset_root = ''/data'', subset_attr = sub, modalities = ms,
       dataset_df = [ex_row], images_subdir = None, clouds_subdir = None,
       semantic_front_subdir = None, semantic_back_subdir = None,
       mink_quantization_size = None, image_transform = False, cloud_transform = False,
       cloud_set_transform = False, semantic_transform = False\<rparr>"

definition ex_self :: "(string, bool) dataset" where
  "ex_self = \<lparr>dataset_root = ''/data'', subset_attr = ''test'', modalities = [''cloud''],
       dataset_df = [ex_row @ [(''in_query'', BoolCell True)]],
       images_subdir = None, clouds_subdir = Some ''lidar'',
       semantic_front_subdir = None, semantic_back_subdir = None,
       mink_quantization_size = Some 0x3FE0000000000000, image_transform = False,
       cloud_transform = False, cloud_set_transform = False, semantic_transform = False\<rparr>"

definition ex_self_semantic :: "(string, bool) dataset" where
  "ex_self_semantic = \<lparr>dataset_root = ''/data'', subset_attr = ''val'', modalities = [''semantic''],
       dataset_df = [ex_row],
       images_subdir = None, clouds_subdir = Some ''lidar'',
       semantic_front_subdir = Some ''labels/front_cam'', semantic_back_subdir = None,
       mink_quantization_size = Some 0x3FE0000000000000, image_transform = False,
       cloud_transform = False, cloud_set_transform = False, semantic_transform = False\<rparr>"

definition ex_sample :: "int \<Rightarrow> nat sample" where
  "ex_sample i = [''idx'' \<mapsto> IntV i, ''utm'' \<mapsto> Vec [0x3F800000, 0x40000000],
                  ''cloud'' \<mapsto> Cloud ex_cloud]"

definition ex_sample_semantic :: "nat sample" where
  "ex_sample_semantic = [''idx'' \<mapsto> IntV 0, ''utm'' \<mapsto> Vec [0x3F800000, 0x40000000],
                  ''semantic_front'' \<mapsto> Tensor 7]"

text \<open>
  A table of two rows: the second has northing 2.0 and easting 1.0.
\<close>

definition ex_row_b :: series where
  "ex_row_b = [(''track'', IntCell 3), (''northing'', FloatCell 0x4000000000000000),
               (''easting'', FloatCell 0x3FF0000000000000), (''front_cam_ts'', IntCell 1000),
               (''lidar_ts'', IntCell 1000), (''in_query'', BoolCell True)]"

definition ex_self_two :: "(string, bool) dataset" where
  "ex_self_two = ex_self\<lparr>dataset_df := [ex_row @ [(''in_query'', BoolCell True)], ex_row_b]\<rparr>"

definition ex_sample_b :: "nat sample" where
  "ex_sample_b = [''idx'' \<mapsto> IntV 1, ''utm'' \<mapsto> Vec [0x40000000, 0x3F800000],
                  ''cloud'' \<mapsto> Cloud ex_cloud]"

section \<open>Properties of the point-cloud loader\<close>

lemma ebind_Inr [simp]: "ebind (Inr v) f = f v"
  by (simp add: ebind_def)

lemma ebind_Inl [simp]: "ebind (Inl e) f = Inl e"
  by (simp add: ebind_def)

lemma ebind_eq_Inr: "ebind r f = Inr y \<longleftrightarrow> (\<exists>v. r = Inr v \<and> f v = Inr y)"
  by (cases r) simp_all

lemma map2_map_same: "map2 f (map g xs) (map h xs) = map (\<lambda>x. f (g x) (h x)) xs"
  by (induction xs) simp_all

lemma mask_select_map: "mask_select a (map P a) = filter P a"
  unfolding mask_select_def by (induction a) simp_all

lemma list_all_map2_and:
  "list_all (\<lambda>b. b) (map2 (\<and>) (map P r) (map Q r)) = list_all (\<lambda>v. P v \<and> Q v) r"
  by (induction r) simp_all

lemma in_range_idx_eq:
  "all_axis1 (logical_and (scalar_le lo pc) (le_scalar pc hi)) =
     map (list_all (\<lambda>v. fval_le (Fin (of_int lo)) (f32_value v)
                        \<and> fval_le (f32_value v) (Fin (of_int hi)))) pc"
  by (simp add: all_axis1_def logical_and_def scalar_le_def le_scalar_def
        map2_map_same list_all_map2_and list.pred_map comp_def)

lemma code_test_interval:
  "(fval_le (Fin (of_int (- 100))) (f32_value v) \<and> fval_le (f32_value v) (Fin (of_int 100)))
     = in_closed_interval v"
  by (cases "f32_value v") (simp_all add: in_closed_interval_def)

lemma records4_Cons4:
  "records4 (a # b # c # d # xs) = [a, b, c, d] # records4 xs"
proof -
  have len: "length (a # b # c # d # xs) div 4 = Suc (length xs div 4)"
    by simp
  have upt: "[0..<Suc (length xs div 4)] = 0 # map Suc [0..<length xs div 4]"
    by (simp only: map_Suc_upt upt_conv_Cons zero_less_Suc)
  show ?thesis
    unfolding records4_def len upt by (simp add: comp_def add.commute)
qed

lemma rows4_records4: "rows4 xs = records4 xs"
  by (induction xs rule: rows4.induct) (simp_all add: records4_Cons4, simp_all add: records4_def)

lemma rows4_length: "r \<in> set (rows4 xs) \<Longrightarrow> length r = 4"
  by (induction xs rule: rows4.induct) auto

lemma row_shape: "length r = 4 \<Longrightarrow> \<exists>a b c d. r = [a, b, c, d]"
  by (cases r; simp; cases "tl r"; simp; cases "tl (tl r)"; simp; cases "tl (tl (tl r))"; simp)


lemma butlast_row4: "length r = 4 \<Longrightarrow> butlast r = take 3 r"
  by (simp add: butlast_conv_take)

lemma row4_test:
  assumes "length r = 4"
  shows "list_all in_closed_interval (butlast r) = passes_range_test r"
proof -
  obtain a b c d where "r = [a, b, c, d]"
    using row_shape [OF assms] by blast
  then show ?thesis
    by (simp add: passes_range_test_def)
qed

lemma load_pc_spec_cloud:
  assumes "rd p = Inr flat" and "length flat mod 4 = 0"
  shows "load_pc rd p = Inr (spec_cloud flat)"
proof -
  have "load_pc rd p =
          Inr (filter (list_all in_closed_interval) (map butlast (rows4 flat)))"
    using assms
    by (simp add: load_pc_def reshape4_def drop_last_column_def in_range_idx_eq
          code_test_interval mask_select_map del: of_int_minus of_int_numeral)
  also have "filter (list_all in_closed_interval) (map butlast (rows4 flat)) =
               map butlast (filter (\<lambda>r. list_all in_closed_interval (butlast r)) (rows4 flat))"
    by (simp add: filter_map comp_def)
  also have "filter (\<lambda>r. list_all in_closed_interval (butlast r)) (rows4 flat) =
               filter passes_range_test (rows4 flat)"
    by (rule filter_cong) (auto simp: row4_test rows4_length)
  also have "map butlast (filter passes_range_test (rows4 flat)) =
               map (take 3) (filter passes_range_test (rows4 flat))"
    by (rule map_cong) (auto simp: butlast_row4 rows4_length)
  finally show ?thesis
    by (simp add: spec_cloud_def rows4_records4)
qed

lemma load_pc_reshape_error:
  assumes "rd p = Inr flat" and "length flat mod 4 \<noteq> 0"
  shows "load_pc rd p = Inl ValueError"
  using assms by (simp add: load_pc_def reshape4_def)

lemma in_closed_interval_iff:
  "in_closed_interval v \<longleftrightarrow> (\<exists>q. f32_value v = Fin q \<and> - 100 \<le> q \<and> q \<le> 100)"
  by (cases "f32_value v") (simp_all add: in_closed_interval_def)

lemma records4_length: "r \<in> set (records4 xs) \<Longrightarrow> length r = 4"
  by (auto simp: records4_def)

lemma take3_test:
  assumes "length r = 4"
  shows "list_all in_closed_interval (take 3 r) = passes_range_test r"
  using row4_test [OF assms] butlast_row4 [OF assms] by simp

lemmas f32_defs = f32_value_def f32_exponent_def f32_fraction_def f32_sign_def f32_magnitude_def

lemma ex_in_interval:
  "in_closed_interval 0x3F800000" "in_closed_interval 0x40000000"
  "in_closed_interval 0x40400000" "in_closed_interval 0" "\<not> in_closed_interval 0x43480000"
  by (simp_all add: in_closed_interval_def f32_defs)

lemma ex_records:
  "records4 ex_floats = [[0x3F800000, 0x40000000, 0x40400000, 0], [0x43480000, 0, 0, 0]]"
  by (simp add: records4_def ex_floats_def upt_conv_Cons)

lemma ex_load: "load_pc ex_rd ''/data/3/lidar/1000.bin'' = Inr ex_cloud"
  using load_pc_spec_cloud [of ex_rd "''/data/3/lidar/1000.bin''" ex_floats]
  by (simp add: ex_rd_def spec_cloud_def ex_records passes_range_test_def ex_in_interval
        ex_cloud_def)
    (simp add: ex_floats_def)

text \<open>
  C1. Every point of a loaded cloud has three coordinates, each a finite number of the
  closed interval \<open>[-100, 100]\<close>; every record of the file whose three coordinates are in
  that interval is kept, a record with a coordinate outside it is absent from the cloud
  (dropped, not clamped), and as many points are returned as records pass. The mask the
  code computes for a row is the conjunction of the three per-axis interval tests.
\<close>

theorem load_pc_range_filter:
  assumes "rd p = Inr flat" and "load_pc rd p = Inr out"
  shows "(\<forall>pt\<in>set out. length pt = 3 \<and> in_closed_interval (pt ! 0)
            \<and> in_closed_interval (pt ! 1) \<and> in_closed_interval (pt ! 2))
       \<and> (\<forall>r\<in>set (records4 flat). passes_range_test r \<longrightarrow> take 3 r \<in> set out)
       \<and> (\<forall>r\<in>set (records4 flat). \<not> passes_range_test r \<longrightarrow> take 3 r \<notin> set out)
       \<and> length out = length (filter passes_range_test (records4 flat))
       \<and> (\<forall>x y z. all_axis1 (logical_and (scalar_le (- 100) [[x, y, z]]) (le_scalar [[x, y, z]] 100))
             = [in_closed_interval x \<and> in_closed_interval y \<and> in_closed_interval z])"
proof -
  have len: "length flat mod 4 = 0"
  proof (rule ccontr)
    assume "length flat mod 4 \<noteq> 0"
    with assms load_pc_reshape_error [of rd p flat] show False by simp
  qed
  have out: "out = map (take 3) (filter passes_range_test (records4 flat))"
    using load_pc_spec_cloud [of rd p flat] assms len by (simp add: spec_cloud_def)
  have sound: "length pt = 3 \<and> in_closed_interval (pt ! 0)
            \<and> in_closed_interval (pt ! 1) \<and> in_closed_interval (pt ! 2)" if "pt \<in> set out" for pt
  proof -
    from that have "pt \<in> take 3 ` set (filter passes_range_test (records4 flat))"
      unfolding out by (simp only: set_map)
    then obtain r where r: "r \<in> set (records4 flat)" "passes_range_test r" "pt = take 3 r"
      by auto
    from r(1) have "length r = 4" by (rule records4_length)
    with r(2,3) show ?thesis by (simp add: passes_range_test_def)
  qed
  have kept: "take 3 r \<in> set out" if "r \<in> set (records4 flat)" "passes_range_test r" for r
  proof -
    from that have "r \<in> set (filter passes_range_test (records4 flat))" by simp
    then show ?thesis unfolding out by (simp only: set_map image_eqI)
  qed
  have dropped: "take 3 r \<notin> set out" if "r \<in> set (records4 flat)" "\<not> passes_range_test r" for r
  proof
    assume "take 3 r \<in> set out"
    from sound [OF this] records4_length [OF that(1)] that(2) show False
      by (simp add: passes_range_test_def)
  qed
  have cnt: "length out = length (filter passes_range_test (records4 flat))"
    unfolding out by (simp only: length_map)
  have conj: "all_axis1 (logical_and (scalar_le (- 100) [[x, y, z]]) (le_scalar [[x, y, z]] 100))
             = [in_closed_interval x \<and> in_closed_interval y \<and> in_closed_interval z]" for x y z
    by (simp add: in_range_idx_eq code_test_interval del: of_int_minus of_int_numeral)
  show ?thesis
  proof (intro conjI ballI allI impI)
    fix pt assume "pt \<in> set out"
    from sound [OF this] show "length pt = 3" "in_closed_interval (pt ! 0)"
      "in_closed_interval (pt ! 1)" "in_closed_interval (pt ! 2)" by blast+
  next
    fix r assume "r \<in> set (records4 flat)" "passes_range_test r"
    then show "take 3 r \<in> set out" by (rule kept)
  next
    fix r assume "r \<in> set (records4 flat)" "\<not> passes_range_test r"
    then show "take 3 r \<notin> set out" by (rule dropped)
  next
    show "length out = length (filter passes_range_test (records4 flat))" by (rule cnt)
  next
    fix x y z
    show "all_axis1 (logical_and (scalar_le (- 100) [[x, y, z]]) (le_scalar [[x, y, z]] 100))
             = [in_closed_interval x \<and> in_closed_interval y \<and> in_closed_interval z]"
      by (rule conj)
  qed
qed

theorem load_pc_range_filter_witness:
  "ex_rd ''/data/3/lidar/1000.bin'' = Inr ex_floats \<and> load_pc ex_rd ''/data/3/lidar/1000.bin'' = Inr ex_cloud
   \<and> [0x3F800000, 0x40000000, 0x40400000] \<in> set ex_cloud
   \<and> in_closed_interval (ex_cloud ! 0 ! 0) \<and> in_closed_interval (ex_cloud ! 0 ! 1)
   \<and> in_closed_interval (ex_cloud ! 0 ! 2)
   \<and> \<not> passes_range_test [0x43480000, 0, 0, 0]
   \<and> take 3 [0x43480000, 0, 0, 0 :: float32] \<notin> set ex_cloud
   \<and> length ex_cloud = length (filter passes_range_test (records4 ex_floats))"
proof -
  have h1: "ex_rd ''/data/3/lidar/1000.bin'' = Inr ex_floats"
    by (simp add: ex_rd_def)
  note filter_facts = load_pc_range_filter [of ex_rd "''/data/3/lidar/1000.bin''" ex_floats ex_cloud, OF h1 ex_load]
  have pt: "[0x3F800000, 0x40000000, 0x40400000] \<in> set ex_cloud"
    by (simp add: ex_cloud_def)
  have nth: "ex_cloud ! 0 = [0x3F800000, 0x40000000, 0x40400000]"
    by (simp add: ex_cloud_def)
  have far: "[0x43480000, 0, 0, 0] \<in> set (records4 ex_floats)"
    by (simp add: ex_records)
  have fails: "\<not> passes_range_test [0x43480000, 0, 0, 0]"
    by (simp add: passes_range_test_def ex_in_interval)
  from filter_facts pt have "in_closed_interval ([0x3F800000, 0x40000000, 0x40400000] ! 0)
      \<and> in_closed_interval ([0x3F800000, 0x40000000, 0x40400000] ! 1)
      \<and> in_closed_interval ([0x3F800000, 0x40000000, 0x40400000] ! 2)"
    by blast
  moreover from filter_facts far fails
  have "take 3 [0x43480000, 0, 0, 0 :: float32] \<notin> set ex_cloud"
    by blast
  moreover from filter_facts
  have "length ex_cloud = length (filter passes_range_test (records4 ex_floats))"
    by blast
  ultimately show ?thesis
    using h1 ex_load pt fails by (simp only: nth simp_thms)
qed

text \<open>
  C8. On a file of zero floats the loader returns a cloud of zero rows and raises nothing.
\<close>

theorem load_pc_empty_file:
  assumes "rd p = Inr []"
  shows "load_pc rd p = Inr []"
  using load_pc_spec_cloud [of rd p "[]"] assms by (simp add: spec_cloud_def records4_def)

theorem load_pc_empty_file_witness:
  "ex_rd ''empty.bin'' = Inr [] \<and> load_pc ex_rd ''empty.bin'' = Inr []"
proof -
  have h: "ex_rd ''empty.bin'' = Inr []"
    by (simp add: ex_rd_def)
  from load_pc_empty_file [of ex_rd "''empty.bin''"] h show ?thesis by simp
qed

text \<open>
  C9. On a file whose number of floats is not a multiple of 4 the loader raises (the
  ValueError of the reshape); it returns no cloud.
\<close>

theorem load_pc_bad_length:
  assumes "rd p = Inr flat" and "length flat mod 4 \<noteq> 0"
  shows "load_pc rd p = Inl ValueError"
  using load_pc_reshape_error [of rd p flat] assms by simp

theorem load_pc_bad_length_witness:
  "ex_rd ''short.bin'' = Inr [0x3F800000, 0x40000000, 0x40400000]
   \<and> length [0x3F800000, 0x40000000, 0x40400000 :: float32] mod 4 \<noteq> 0
   \<and> load_pc ex_rd ''short.bin'' = Inl ValueError"
proof -
  have h: "ex_rd ''short.bin'' = Inr [0x3F800000, 0x40000000, 0x40400000]"
    by (simp add: ex_rd_def)
  from load_pc_bad_length [of ex_rd "''short.bin''" "[0x3F800000, 0x40000000, 0x40400000]"] h
  show ?thesis by simp
qed

text \<open>
  C10. The loader keeps order and multiplicity: on a file of whole records its result is
  the list of the records that pass the range test, in the order of the file and with
  repetitions, each cut to its first three values.
\<close>

theorem load_pc_order_multiplicity:
  assumes "rd p = Inr flat" and "length flat mod 4 = 0"
  shows "load_pc rd p = Inr (map (take 3) (filter passes_range_test (records4 flat)))"
  using load_pc_spec_cloud [of rd p flat] assms by (simp add: spec_cloud_def)

theorem load_pc_order_multiplicity_witness:
  "ex_rd ''repeated.bin'' = Inr ex_repeated \<and> length ex_repeated mod 4 = 0
   \<and> load_pc ex_rd ''repeated.bin'' =
       Inr [[0x40400000, 0x40000000, 0x3F800000], [0x3F800000, 0x40000000, 0x40400000],
            [0x40400000, 0x40000000, 0x3F800000]]"
proof -
  have h: "ex_rd ''repeated.bin'' = Inr ex_repeated"
    by (simp add: ex_rd_def)
  have len: "length ex_repeated mod 4 = 0"
    by (simp add: ex_repeated_def)
  have recs: "records4 ex_repeated =
      [[0x40400000, 0x40000000, 0x3F800000, 0], [0x43480000, 0, 0, 0],
       [0x3F800000, 0x40000000, 0x40400000, 0], [0x40400000, 0x40000000, 0x3F800000, 0]]"
    by (simp add: records4_def ex_repeated_def upt_conv_Cons)
  from load_pc_order_multiplicity [of ex_rd "''repeated.bin''" ex_repeated] h len
  show ?thesis
    by (simp add: recs passes_range_test_def ex_in_interval)
qed

section \<open>Properties of the constructor and of item access\<close>

lemma sreturn_apply [simp]: "sreturn r s = (r, s)"
  by (simp add: sreturn_def)

lemma sbind_Inr: "m s = (Inr v, s') \<Longrightarrow> sbind m f s = f v s'"
  by (simp add: sbind_def)

lemma sbind_Inl: "m s = (Inl e, s') \<Longrightarrow> sbind m f s = (Inl e, s')"
  by (simp add: sbind_def)

lemma sbind_sreturn:
  "sbind (sreturn r) f s = (case r of Inl e \<Rightarrow> (Inl e, s) | Inr v \<Rightarrow> f v s)"
  by (cases r) (simp_all add: sbind_def)

lemma sbind_eq_Inr:
  "sbind m f s = (Inr y, t) \<longleftrightarrow> (\<exists>v s'. m s = (Inr v, s') \<and> f v s' = (Inr y, t))"
proof (cases "m s")
  case (Pair r s')
  then show ?thesis by (cases r) (simp_all add: sbind_def)
qed

lemma fst_sbind_Inr:
  "fst (sbind m f s) = Inr y \<longleftrightarrow> (\<exists>v s'. m s = (Inr v, s') \<and> fst (f v s') = Inr y)"
proof (cases "m s")
  case (Pair r s')
  then show ?thesis by (cases r) (simp_all add: sbind_def)
qed

lemma otc_refl: "only_transforms_changed a a"
  by (simp add: only_transforms_changed_def)

lemma otc_trans:
  assumes "only_transforms_changed a b" and "only_transforms_changed b c"
  shows "only_transforms_changed a c"
proof -
  from assms(1) have b: "b = a\<lparr>image_transform := image_transform b, semantic_transform := semantic_transform b\<rparr>"
    by (simp add: only_transforms_changed_def)
  from assms(2) have c: "c = b\<lparr>image_transform := image_transform c, semantic_transform := semantic_transform c\<rparr>"
    by (simp add: only_transforms_changed_def)
  have "c = a\<lparr>image_transform := image_transform c, semantic_transform := semantic_transform c\<rparr>"
    by (subst c, subst b) simp
  then show ?thesis by (simp add: only_transforms_changed_def)
qed

lemma otc_fields:
  assumes "only_transforms_changed a b"
  shows "dataset_df b = dataset_df a" and "dataset_root b = dataset_root a"
    and "subset_attr b = subset_attr a" and "modalities b = modalities a"
    and "images_subdir b = images_subdir a" and "clouds_subdir b = clouds_subdir a"
    and "semantic_front_subdir b = semantic_front_subdir a"
    and "semantic_back_subdir b = semantic_back_subdir a"
    and "mink_quantization_size b = mink_quantization_size a"
    and "cloud_transform b = cloud_transform a"
    and "cloud_set_transform b = cloud_set_transform a"
proof -
  from assms have b: "b = a\<lparr>image_transform := image_transform b, semantic_transform := semantic_transform b\<rparr>"
    by (simp add: only_transforms_changed_def)
  show "dataset_df b = dataset_df a" by (subst b) simp
  show "dataset_root b = dataset_root a" by (subst b) simp
  show "subset_attr b = subset_attr a" by (subst b) simp
  show "modalities b = modalities a" by (subst b) simp
  show "images_subdir b = images_subdir a" by (subst b) simp
  show "clouds_subdir b = clouds_subdir a" by (subst b) simp
  show "semantic_front_subdir b = semantic_front_subdir a" by (subst b) simp
  show "semantic_back_subdir b = semantic_back_subdir a" by (subst b) simp
  show "mink_quantization_size b = mink_quantization_size a" by (subst b) simp
  show "cloud_transform b = cloud_transform a" by (subst b) simp
  show "cloud_set_transform b = cloud_set_transform a" by (subst b) simp
qed

lemma otc_sbind:
  assumes "\<And>s. only_transforms_changed s (snd (m s))"
    and "\<And>v s. only_transforms_changed s (snd (f v s))"
  shows "only_transforms_changed s (snd (sbind m f s))"
proof (cases "m s")
  case (Pair r s')
  with assms(1) [of s] have 1: "only_transforms_changed s s'" by simp
  show ?thesis
  proof (cases r)
    case (Inl e)
    with Pair 1 show ?thesis by (simp add: sbind_def)
  next
    case (Inr v)
    with Pair have "sbind m f s = f v s'" by (simp add: sbind_def)
    with otc_trans [OF 1 assms(2) [of s' v]] show ?thesis by simp
  qed
qed

lemma otc_sreturn: "only_transforms_changed s (snd (sreturn r s))"
  by (simp add: otc_refl)

lemma otc_call_image: "only_transforms_changed s (snd (call_image_transform E im s))"
  by (simp add: call_image_transform_def only_transforms_changed_def split: prod.splits)

lemma otc_call_semantic: "only_transforms_changed s (snd (call_semantic_transform E im s))"
  by (simp add: call_semantic_transform_def only_transforms_changed_def split: prod.splits)

lemma add_image_frame: "only_transforms_changed s (snd (add_image E td row data s))"
  unfolding add_image_def Let_def
  by (auto split: option.splits intro!: otc_sbind otc_sreturn otc_call_image otc_refl)

lemma add_cloud_frame: "only_transforms_changed s (snd (add_cloud E td row data s))"
  unfolding add_cloud_def Let_def
  by (auto split: option.splits intro!: otc_sbind otc_sreturn otc_refl)

lemma add_mask_frame: "only_transforms_changed s (snd (add_mask E td row sub col key data s))"
  unfolding add_mask_def Let_def
  by (auto split: option.splits intro!: otc_sbind otc_sreturn otc_call_semantic otc_refl)



lemma call_image_transform_Inr:
  "call_image_transform E im s = (Inr v, s') \<Longrightarrow> only_transforms_changed s s'"
  using otc_call_image [of s E im] by simp

lemma add_image_other:
  assumes "add_image E td row data self = (Inr d, s')" and "k \<noteq> ''image''"
  shows "d k = data k"
  using assms
  by (auto simp: add_image_def sbind_eq_Inr Let_def split: option.splits if_splits)

lemma add_cloud_other:
  assumes "add_cloud E td row data self = (Inr d, s')" and "k \<noteq> ''cloud''"
  shows "d k = data k"
  using assms
  by (auto simp: add_cloud_def sbind_eq_Inr Let_def split: option.splits if_splits)

lemma add_mask_other:
  assumes "add_mask E td row sub col key data self = (Inr d, s')" and "k \<noteq> key"
  shows "d k = data k"
  using assms
  by (auto simp: add_mask_def sbind_eq_Inr Let_def split: option.splits)

lemma add_semantic_other:
  assumes "add_semantic E td row data self = (Inr d, s')"
    and "k \<noteq> ''semantic_front''" and "k \<noteq> ''semantic_back''"
  shows "d k = data k"
proof (cases "''semantic'' \<in> set (modalities self)
         \<and> (semantic_front_subdir self \<noteq> None \<or> semantic_back_subdir self \<noteq> None)")
  case True
  with assms(1) obtain d1 s1 where
    d1: "add_mask E td row (semantic_front_subdir self) ''front_cam_ts'' ''semantic_front'' data self
           = (Inr d1, s1)"
    and d: "add_mask E td row (semantic_back_subdir s1) ''back_cam_ts'' ''semantic_back'' d1 s1
           = (Inr d, s')"
    by (auto simp: add_semantic_def sbind_eq_Inr)
  from add_mask_other [OF d assms(3)] add_mask_other [OF d1 assms(2)] show ?thesis by simp
next
  case False
  with assms(1) show ?thesis by (auto simp: add_semantic_def)
qed

lemma getitem_Inr:
  assumes "fst (getitem E self idx) = Inr s"
  obtains row utm track d1 s1 d2 s2 s3 where
    "iloc (dataset_df self) idx = Inr row"
    "utm_of E row = Inr utm"
    "getcol row ''track'' = Inr track"
    "add_image E (path_join E (dataset_root self) (path_of_str E (py_str E track))) row
       [''idx'' \<mapsto> IntV idx, ''utm'' \<mapsto> Vec utm] self = (Inr d1, s1)"
    "add_cloud E (path_join E (dataset_root self) (path_of_str E (py_str E track))) row d1 s1
       = (Inr d2, s2)"
    "add_semantic E (path_join E (dataset_root self) (path_of_str E (py_str E track))) row d2 s2
       = (Inr s, s3)"
proof -
  from assms obtain row where row: "iloc (dataset_df self) idx = Inr row"
    and r1: "fst (sbind (sreturn (utm_of E row)) (\<lambda>utm.
           sbind (sreturn (getcol row ''track'')) (\<lambda>track.
              sbind (\<lambda>self. (Inr (path_join E (dataset_root self)
                                      (path_of_str E (py_str E track))), self)) (\<lambda>track_dir.
              sbind (add_image E track_dir row [''idx'' \<mapsto> IntV idx, ''utm'' \<mapsto> Vec utm]) (\<lambda>data.
              sbind (add_cloud E track_dir row data) (\<lambda>data.
              add_semantic E track_dir row data))))) self) = Inr s"
    by (auto simp: getitem_def Let_def fst_sbind_Inr [of "\<lambda>self. (iloc (dataset_df self) idx, self)"])
  from r1 obtain utm where utm: "utm_of E row = Inr utm"
    and r2: "fst (sbind (sreturn (getcol row ''track'')) (\<lambda>track.
              sbind (\<lambda>self. (Inr (path_join E (dataset_root self)
                                      (path_of_str E (py_str E track))), self)) (\<lambda>track_dir.
              sbind (add_image E track_dir row [''idx'' \<mapsto> IntV idx, ''utm'' \<mapsto> Vec utm]) (\<lambda>data.
              sbind (add_cloud E track_dir row data) (\<lambda>data.
              add_semantic E track_dir row data)))) self) = Inr s"
    by (cases "utm_of E row") (simp_all add: sbind_sreturn)
  from r2 obtain track where track: "getcol row ''track'' = Inr track"
    and r3: "fst (sbind (add_image E (path_join E (dataset_root self) (path_of_str E (py_str E track)))
                     row [''idx'' \<mapsto> IntV idx, ''utm'' \<mapsto> Vec utm]) (\<lambda>data.
              sbind (add_cloud E (path_join E (dataset_root self) (path_of_str E (py_str E track))) row data) (\<lambda>data.
              add_semantic E (path_join E (dataset_root self) (path_of_str E (py_str E track))) row data)) self) = Inr s"
    by (cases "getcol row ''track''") (simp_all add: sbind_sreturn sbind_def)
  from r3 obtain d1 s1 where d1: "add_image E (path_join E (dataset_root self) (path_of_str E (py_str E track))) row
       [''idx'' \<mapsto> IntV idx, ''utm'' \<mapsto> Vec utm] self = (Inr d1, s1)"
    and r4: "fst (sbind (add_cloud E (path_join E (dataset_root self) (path_of_str E (py_str E track))) row d1) (\<lambda>data.
              add_semantic E (path_join E (dataset_root self) (path_of_str E (py_str E track))) row data) s1) = Inr s"
    unfolding fst_sbind_Inr [of "add_image _ _ _ _"] by blast
  from r4 obtain d2 s2 where d2: "add_cloud E (path_join E (dataset_root self) (path_of_str E (py_str E track))) row d1 s1
       = (Inr d2, s2)"
    and r5: "fst (add_semantic E (path_join E (dataset_root self) (path_of_str E (py_str E track))) row d2 s2) = Inr s"
    unfolding fst_sbind_Inr by blast
  from r5 obtain s3 where "add_semantic E (path_join E (dataset_root self) (path_of_str E (py_str E track))) row d2 s2
       = (Inr s, s3)"
    by (cases "add_semantic E (path_join E (dataset_root self) (path_of_str E (py_str E track))) row d2 s2") simp
  with row utm track d1 d2 show thesis
    by (rule that)
qed

lemma getitem_idx:
  assumes "fst (getitem E self idx) = Inr s"
  shows "s ''idx'' = Some (IntV idx)"
proof -
  from assms obtain row utm track d1 s1 d2 s2 s3 where
    d1: "add_image E (path_join E (dataset_root self) (path_of_str E (py_str E track))) row
       [''idx'' \<mapsto> IntV idx, ''utm'' \<mapsto> Vec utm] self = (Inr d1, s1)"
    and d2: "add_cloud E (path_join E (dataset_root self) (path_of_str E (py_str E track))) row d1 s1
       = (Inr d2, s2)"
    and s: "add_semantic E (path_join E (dataset_root self) (path_of_str E (py_str E track))) row d2 s2
       = (Inr s, s3)"
    by (rule getitem_Inr)
  have "s ''idx'' = d2 ''idx''" using add_semantic_other [OF s] by simp
  also have "\<dots> = d1 ''idx''" using add_cloud_other [OF d2] by simp
  also have "\<dots> = [''idx'' \<mapsto> IntV idx, ''utm'' \<mapsto> Vec utm] ''idx''"
    using add_image_other [OF d1] by simp
  finally show ?thesis by simp
qed

lemma getitem_utm_row:
  assumes "fst (getitem E self idx) = Inr s"
  shows "\<exists>row utm. iloc (dataset_df self) idx = Inr row \<and> utm_of E row = Inr utm
           \<and> s ''utm'' = Some (Vec utm)"
proof -
  from assms obtain row utm track d1 s1 d2 s2 s3 where
    row: "iloc (dataset_df self) idx = Inr row" and utm: "utm_of E row = Inr utm" and
    d1: "add_image E (path_join E (dataset_root self) (path_of_str E (py_str E track))) row
       [''idx'' \<mapsto> IntV idx, ''utm'' \<mapsto> Vec utm] self = (Inr d1, s1)"
    and d2: "add_cloud E (path_join E (dataset_root self) (path_of_str E (py_str E track))) row d1 s1
       = (Inr d2, s2)"
    and s: "add_semantic E (path_join E (dataset_root self) (path_of_str E (py_str E track))) row d2 s2
       = (Inr s, s3)"
    by (rule getitem_Inr)
  have "s ''utm'' = d2 ''utm''" using add_semantic_other [OF s] by simp
  also have "\<dots> = d1 ''utm''" using add_cloud_other [OF d2] by simp
  also have "\<dots> = [''idx'' \<mapsto> IntV idx, ''utm'' \<mapsto> Vec utm] ''utm''"
    using add_image_other [OF d1] by simp
  finally have "s ''utm'' = Some (Vec utm)" by simp
  with row utm show ?thesis by blast
qed

lemma utm_of_Inr:
  assumes "utm_of E row = Inr utm"
  shows "\<exists>n e n32 e32. map_of row ''northing'' = Some n \<and> map_of row ''easting'' = Some e
           \<and> as_float32 E n = Inr n32 \<and> as_float32 E e = Inr e32 \<and> utm = [n32, e32]"
  using assms
  by (auto simp: utm_of_def getcol_def ebind_eq_Inr split: option.splits)

lemma iloc_valid:
  assumes "0 \<le> idx" and "idx < int (length df)"
  shows "iloc df idx = Inr (df ! nat idx)"
  using assms by (simp add: iloc_def Let_def)

lemma iloc_out_of_range:
  assumes "idx < - int (length df) \<or> int (length df) \<le> idx"
  shows "iloc df idx = Inl IndexError"
  using assms by (auto simp: iloc_def Let_def)

lemma iloc_negative:
  assumes "- int (length df) \<le> idx" and "idx < 0"
  shows "iloc df idx = Inr (df ! nat (idx + int (length df)))"
  using assms by (simp add: iloc_def Let_def)

lemma set_pcd_fields:
  "modalities (set_pcd E self) = modalities self"
  "dataset_df (set_pcd E self) = dataset_df self"
  "subset_attr (set_pcd E self) = subset_attr self"
  "dataset_root (set_pcd E self) = dataset_root self"
  "semantic_front_subdir (set_pcd E self) = semantic_front_subdir self"
  "semantic_back_subdir (set_pcd E self) = semantic_back_subdir self"
  by (simp_all add: set_pcd_def)

lemma set_images_subdir_fields:
  assumes "set_images_subdir E a self = Inr self'"
  shows "modalities self' = modalities self"
    and "dataset_df self' = dataset_df self"
    and "subset_attr self' = subset_attr self"
    and "dataset_root self' = dataset_root self"
    and "semantic_front_subdir self' = semantic_front_subdir self"
    and "semantic_back_subdir self' = semantic_back_subdir self"
  using assms
  by (auto simp: set_images_subdir_def split: if_splits option.splits)

lemma set_semantic_subdirs_fields:
  "modalities (set_semantic_subdirs E fa ba self) = modalities self"
  "dataset_df (set_semantic_subdirs E fa ba self) = dataset_df self"
  "subset_attr (set_semantic_subdirs E fa ba self) = subset_attr self"
  "dataset_root (set_semantic_subdirs E fa ba self) = dataset_root self"
  by (simp_all add: set_semantic_subdirs_def Let_def split: option.splits)

lemma set_semantic_subdirs_back_None:
  "semantic_back_subdir (set_semantic_subdirs E fa None self) = semantic_back_subdir self"
  by (simp add: set_semantic_subdirs_def Let_def split: option.splits)

lemma set_semantic_subdirs_front:
  assumes "''semantic'' \<in> set (modalities self)" and "truthy (Some a)"
  shows "semantic_front_subdir (set_semantic_subdirs E (Some a) ba self) = Some (mkPath E a)"
  using assms by (simp add: set_semantic_subdirs_def Let_def split: option.splits)

lemma set_in_query_fields:
  "modalities (set_in_query self) = modalities self"
  "subset_attr (set_in_query self) = subset_attr self"
  "dataset_root (set_in_query self) = dataset_root self"
  "clouds_subdir (set_in_query self) = clouds_subdir self"
  "semantic_front_subdir (set_in_query self) = semantic_front_subdir self"
  "semantic_back_subdir (set_in_query self) = semantic_back_subdir self"
  by (simp_all add: set_in_query_def)

lemma init_Inr:
  assumes "PhystechCampus_init E base sa ia fa ba mq = Inr self"
  obtains b s1 where "base = Inr b"
    and "set_images_subdir E ia (set_pcd E b) = Inr s1"
    and "self = (set_in_query
            ((set_semantic_subdirs E fa ba s1)
               \<lparr>clouds_subdir := Some (path_of_str E ''lidar''), mink_quantization_size := mq\<rparr>))
          \<lparr>image_transform := DefaultImageTransform E (sa = ''train''),
           cloud_transform := DefaultCloudTransform E (sa = ''train''),
           cloud_set_transform := DefaultCloudSetTransform E (sa = ''train''),
           semantic_transform := DefaultSemanticTransform E (sa = ''train'')\<rparr>"
  using assms by (auto simp: PhystechCampus_init_def ebind_eq_Inr Let_def)

lemma init_clouds_subdir:
  assumes "PhystechCampus_init E base sa ia fa ba mq = Inr self"
  shows "clouds_subdir self = Some (path_of_str E ''lidar'')"
  using assms by (rule init_Inr) (simp add: set_in_query_fields)

lemma init_frame:
  assumes "PhystechCampus_init E (Inr b) sa ia fa ba mq = Inr self"
  shows "modalities self = modalities b"
    and "subset_attr self = subset_attr b"
    and "dataset_root self = dataset_root b"
    and "dataset_df self =
           (if subset_attr b = ''test''
            then setitem_column (dataset_df b) ''in_query'' (BoolCell True) else dataset_df b)"
proof -
  from assms obtain s1 where s1: "set_images_subdir E ia (set_pcd E b) = Inr s1"
    and self: "self = (set_in_query
            ((set_semantic_subdirs E fa ba s1)
               \<lparr>clouds_subdir := Some (path_of_str E ''lidar''), mink_quantization_size := mq\<rparr>))
          \<lparr>image_transform := DefaultImageTransform E (sa = ''train''),
           cloud_transform := DefaultCloudTransform E (sa = ''train''),
           cloud_set_transform := DefaultCloudSetTransform E (sa = ''train''),
           semantic_transform := DefaultSemanticTransform E (sa = ''train'')\<rparr>"
    by (auto elim: init_Inr)
  note f = set_images_subdir_fields [OF s1] set_pcd_fields set_semantic_subdirs_fields
  show "modalities self = modalities b"
    by (simp add: self set_in_query_fields f)
  show "subset_attr self = subset_attr b"
    by (simp add: self set_in_query_fields f)
  show "dataset_root self = dataset_root b"
    by (simp add: self set_in_query_fields f)
  show "dataset_df self =
           (if subset_attr b = ''test''
            then setitem_column (dataset_df b) ''in_query'' (BoolCell True) else dataset_df b)"
    by (simp add: self set_in_query_def f)
qed

lemma init_semantic:
  assumes "PhystechCampus_init E (Inr b) sa ia (Some a) None mq = Inr self"
    and "''semantic'' \<in> set (modalities b)" and "truthy (Some a)"
  shows "semantic_front_subdir self = Some (mkPath E a)"
    and "semantic_back_subdir self = semantic_back_subdir b"
proof -
  from assms(1) obtain s1 where s1: "set_images_subdir E ia (set_pcd E b) = Inr s1"
    and self: "self = (set_in_query
            ((set_semantic_subdirs E (Some a) None s1)
               \<lparr>clouds_subdir := Some (path_of_str E ''lidar''), mink_quantization_size := mq\<rparr>))
          \<lparr>image_transform := DefaultImageTransform E (sa = ''train''),
           cloud_transform := DefaultCloudTransform E (sa = ''train''),
           cloud_set_transform := DefaultCloudSetTransform E (sa = ''train''),
           semantic_transform := DefaultSemanticTransform E (sa = ''train'')\<rparr>"
    by (auto elim: init_Inr)
  note f = set_images_subdir_fields [OF s1] set_pcd_fields
  from assms(2) have m: "''semantic'' \<in> set (modalities s1)" by (simp add: f)
  show "semantic_front_subdir self = Some (mkPath E a)"
    by (simp add: self set_in_query_fields set_semantic_subdirs_front [OF m assms(3)])
  show "semantic_back_subdir self = semantic_back_subdir b"
    by (simp add: self set_in_query_fields set_semantic_subdirs_back_None f)
qed

lemma add_cloud_Inr:
  assumes "add_cloud E td row data self = (Inr d, s')"
    and "''cloud'' \<in> set (modalities self)" and "clouds_subdir self = Some sub"
  shows "\<exists>ts pc. getcol row ''lidar_ts'' = Inr ts
           \<and> load_pc (fromfile E)
                 (path_join E (path_join E td sub) (path_of_str E (py_str E ts @ ''.bin''))) = Inr pc
           \<and> d = data(''cloud'' \<mapsto> Cloud pc)"
  using assms by (auto simp: add_cloud_def sbind_eq_Inr Let_def)

lemma add_mask_Some:
  assumes "add_mask E td row (Some sub) col key data self = (Inr d, s')"
  shows "d key \<noteq> None"
  using assms by (auto simp: add_mask_def sbind_eq_Inr Let_def)

lemma add_mask_None: "add_mask E td row None col key data self = (Inr data, self)"
  by (simp add: add_mask_def)

lemma add_semantic_front_only:
  assumes "add_semantic E td row data self = (Inr d, s')"
    and "''semantic'' \<in> set (modalities self)"
    and "semantic_front_subdir self = Some sub" and "semantic_back_subdir self = None"
  shows "d ''semantic_front'' \<noteq> None" and "d ''semantic_back'' = data ''semantic_back''"
proof -
  from assms(1,2,3) obtain d1 s1 where
    d1: "add_mask E td row (Some sub) ''front_cam_ts'' ''semantic_front'' data self = (Inr d1, s1)"
    and d: "add_mask E td row (semantic_back_subdir s1) ''back_cam_ts'' ''semantic_back'' d1 s1
              = (Inr d, s')"
    by (auto simp: add_semantic_def sbind_eq_Inr)
  from add_mask_frame [of self E td row "Some sub" "''front_cam_ts''" "''semantic_front''" data] d1
  have "only_transforms_changed self s1"
    by simp
  from otc_fields(8) [OF this] assms(4) have "semantic_back_subdir s1 = None"
    by simp
  with d have "d = d1"
    by (simp add: add_mask_None)
  with add_mask_Some [OF d1] show "d ''semantic_front'' \<noteq> None"
    by simp
  from \<open>d = d1\<close> add_mask_other [OF d1] show "d ''semantic_back'' = data ''semantic_back''"
    by simp
qed

lemma ex_init:
  "PhystechCampus_init ex_env (Inr (ex_base ''test'' [''cloud''])) ''test''
     (Some (PyStr ''front_cam'')) (Some (PyStr ''labels/front_cam''))
     (Some (PyStr ''labels/back_cam'')) (Some 0x3FE0000000000000) = Inr ex_self"
  by (simp add: PhystechCampus_init_def set_pcd_def set_images_subdir_def
        set_semantic_subdirs_def set_in_query_def setitem_column_def ex_base_def ex_self_def
        ex_env_def ex_row_def AList.update.simps)

lemma ex_init_semantic:
  "PhystechCampus_init ex_env (Inr (ex_base ''val'' [''semantic''])) ''val''
     (Some (PyStr ''front_cam'')) (Some (PyStr ''labels/front_cam''))
     None (Some 0x3FE0000000000000) = Inr ex_self_semantic"
  by (simp add: PhystechCampus_init_def set_pcd_def set_images_subdir_def
        set_semantic_subdirs_def set_in_query_def truthy_def mkPath_def ex_base_def
        ex_self_semantic_def ex_env_def)

lemma ex_utm: "utm_of ex_env (ex_row @ extra) = Inr [0x3F800000, 0x40000000]"
  by (simp add: utm_of_def getcol_def ex_row_def ex_env_def ex_as_float32_def)

lemma ex_getitem_pair:
  assumes "i = 0 \<or> i = - 1"
  shows "getitem ex_env ex_self i = (Inr (ex_sample i), ex_self)"
proof -
  from assms have row: "iloc (dataset_df ex_self) i = Inr (ex_row @ [(''in_query'', BoolCell True)])"
    by (auto simp: iloc_def ex_self_def)
  have track: "getcol (ex_row @ [(''in_query'', BoolCell True)]) ''track'' = Inr (IntCell 3)"
    by (simp add: getcol_def ex_row_def)
  have ts: "getcol (ex_row @ [(''in_query'', BoolCell True)]) ''lidar_ts'' = Inr (IntCell 1000)"
    by (simp add: getcol_def ex_row_def)
  have img: "add_image ex_env td r d ex_self = (Inr d, ex_self)" for td r d
    by (simp add: add_image_def ex_self_def)
  have sem: "add_semantic ex_env td r d ex_self = (Inr d, ex_self)" for td r d
    by (simp add: add_semantic_def ex_self_def)
  have cloud: "add_cloud ex_env ''/data/3'' (ex_row @ [(''in_query'', BoolCell True)]) d ex_self
                 = (Inr (d(''cloud'' \<mapsto> Cloud ex_cloud)), ex_self)" for d
    using ex_load
    by (simp add: add_cloud_def ex_self_def ts ex_env_def ex_py_str_def sbind_sreturn)
  have dir: "path_join ex_env (dataset_root ex_self) (path_of_str ex_env (py_str ex_env (IntCell 3)))
               = ''/data/3''"
    by (simp add: ex_env_def ex_self_def ex_py_str_def)
  show ?thesis
    by (simp add: getitem_def sbind_def row ex_utm track dir img cloud sem ex_sample_def)
qed

lemma ex_getitem:
  assumes "i = 0 \<or> i = - 1"
  shows "fst (getitem ex_env ex_self i) = Inr (ex_sample i)"
  using ex_getitem_pair [OF assms] by simp

lemma ex_getitem_semantic_pair:
  "getitem ex_env ex_self_semantic 0 = (Inr ex_sample_semantic, ex_self_semantic)"
proof -
  have row: "iloc (dataset_df ex_self_semantic) 0 = Inr ex_row"
    by (simp add: iloc_def ex_self_semantic_def)
  have track: "getcol ex_row ''track'' = Inr (IntCell 3)"
    by (simp add: getcol_def ex_row_def)
  have ts: "getcol ex_row ''front_cam_ts'' = Inr (IntCell 1000)"
    by (simp add: getcol_def ex_row_def)
  have img: "add_image ex_env td r d ex_self_semantic = (Inr d, ex_self_semantic)" for td r d
    by (simp add: add_image_def ex_self_semantic_def)
  have cloud: "add_cloud ex_env td r d ex_self_semantic = (Inr d, ex_self_semantic)" for td r d
    by (simp add: add_cloud_def ex_self_semantic_def)
  have sem: "add_semantic ex_env ''/data/3'' ex_row d ex_self_semantic
                 = (Inr (d(''semantic_front'' \<mapsto> Tensor 7)), ex_self_semantic)" for d
    by (simp add: add_semantic_def add_mask_def call_semantic_transform_def sbind_def
          ex_self_semantic_def ts ex_env_def ex_py_str_def)
  have dir: "path_join ex_env (dataset_root ex_self_semantic)
               (path_of_str ex_env (py_str ex_env (IntCell 3))) = ''/data/3''"
    by (simp add: ex_env_def ex_self_semantic_def ex_py_str_def)
  from ex_utm [of "[]"] have utm: "utm_of ex_env ex_row = Inr [0x3F800000, 0x40000000]"
    by simp
  show ?thesis
    by (simp add: getitem_def sbind_def row utm track dir img cloud sem ex_sample_semantic_def)
qed

lemma ex_getitem_semantic:
  "fst (getitem ex_env ex_self_semantic 0) = Inr ex_sample_semantic"
  by (simp add: ex_getitem_semantic_pair)

lemma sbind_upd:
  assumes "\<And>x s. f' x s = apfst (map_sum id h) (f x s)"
  shows "sbind m f' s = apfst (map_sum id h) (sbind m f s)"
proof (cases "m s")
  case (Pair r s')
  then show ?thesis by (cases r) (simp_all add: sbind_def assms)
qed

lemma sbind_upd2:
  assumes "\<And>s. m' s = apfst (map_sum id g) (m s)"
    and "\<And>x s. f' (g x) s = apfst (map_sum id h) (f x s)"
  shows "sbind m' f' s = apfst (map_sum id h) (sbind m f s)"
proof (cases "m s")
  case (Pair r s')
  then show ?thesis by (cases r) (simp_all add: sbind_def assms)
qed

lemma add_image_upd:
  assumes "k \<noteq> ''image''"
  shows "add_image E td row (data(k \<mapsto> v)) s
           = apfst (map_sum id (\<lambda>d. d(k \<mapsto> v))) (add_image E td row data s)"
proof (cases "if ''image'' \<in> set (modalities s) then images_subdir s else None")
  case None
  then show ?thesis by (simp add: add_image_def)
next
  case (Some subdir)
  have tw: "(data(k \<mapsto> v))(''image'' \<mapsto> x) = (data(''image'' \<mapsto> x))(k \<mapsto> v)" for x
    using assms by (simp add: fun_upd_twist)
  show ?thesis
    using Some unfolding add_image_def Let_def tw
    by (simp only: option.case) (intro sbind_upd, simp)
qed

lemma add_cloud_upd:
  assumes "k \<noteq> ''cloud''"
  shows "add_cloud E td row (data(k \<mapsto> v)) s
           = apfst (map_sum id (\<lambda>d. d(k \<mapsto> v))) (add_cloud E td row data s)"
proof (cases "if ''cloud'' \<in> set (modalities s) then clouds_subdir s else None")
  case None
  then show ?thesis by (simp add: add_cloud_def)
next
  case (Some subdir)
  have tw: "(data(k \<mapsto> v))(''cloud'' \<mapsto> x) = (data(''cloud'' \<mapsto> x))(k \<mapsto> v)" for x
    using assms by (simp add: fun_upd_twist)
  show ?thesis
    using Some unfolding add_cloud_def Let_def tw
    by (simp only: option.case) (intro sbind_upd, simp)
qed

lemma add_mask_upd:
  assumes "k \<noteq> key"
  shows "add_mask E td row sub col key (data(k \<mapsto> v)) s
           = apfst (map_sum id (\<lambda>d. d(k \<mapsto> v))) (add_mask E td row sub col key data s)"
proof (cases sub)
  case None
  then show ?thesis by (simp add: add_mask_def)
next
  case (Some subdir)
  have tw: "(data(k \<mapsto> v))(key \<mapsto> x) = (data(key \<mapsto> x))(k \<mapsto> v)" for x
    using assms by (simp add: fun_upd_twist)
  show ?thesis
    unfolding Some add_mask_def Let_def tw
    by (simp only: option.case) (intro sbind_upd, simp)
qed

lemma add_semantic_upd:
  assumes "k \<noteq> ''semantic_front''" and "k \<noteq> ''semantic_back''"
  shows "add_semantic E td row (data(k \<mapsto> v)) s
           = apfst (map_sum id (\<lambda>d. d(k \<mapsto> v))) (add_semantic E td row data s)"
proof (cases "''semantic'' \<in> set (modalities s)
         \<and> (semantic_front_subdir s \<noteq> None \<or> semantic_back_subdir s \<noteq> None)")
  case True
  have "sbind (\<lambda>self. add_mask E td row (semantic_front_subdir self)
                           ''front_cam_ts'' ''semantic_front'' (data(k \<mapsto> v)) self)
          (\<lambda>data self. add_mask E td row (semantic_back_subdir self)
               ''back_cam_ts'' ''semantic_back'' data self) s
        = apfst (map_sum id (\<lambda>d. d(k \<mapsto> v)))
           (sbind (\<lambda>self. add_mask E td row (semantic_front_subdir self)
                           ''front_cam_ts'' ''semantic_front'' data self)
          (\<lambda>data self. add_mask E td row (semantic_back_subdir self)
               ''back_cam_ts'' ''semantic_back'' data self) s)"
    by (rule sbind_upd2) (rule add_mask_upd [OF assms(1)], rule add_mask_upd [OF assms(2)])
  with True show ?thesis by (simp add: add_semantic_def)
next
  case False
  then show ?thesis by (auto simp: add_semantic_def)
qed

lemma getitem_same_row:
  assumes "iloc (dataset_df self) i = iloc (dataset_df self) j"
  shows "getitem E self i
           = apfst (map_sum id (\<lambda>d. d(''idx'' \<mapsto> IntV i))) (getitem E self j)"
proof -
  define rest where "rest d =
       sbind (\<lambda>self. (iloc (dataset_df self) j, self)) (\<lambda>row.
         sbind (sreturn (utm_of E row)) (\<lambda>utm.
           sbind (sreturn (getcol row ''track'')) (\<lambda>track.
              sbind (\<lambda>self. (Inr (path_join E (dataset_root self)
                                      (path_of_str E (py_str E track))), self)) (\<lambda>track_dir.
              sbind (add_image E track_dir row (d(''utm'' \<mapsto> Vec utm))) (\<lambda>data.
              sbind (add_cloud E track_dir row data) (\<lambda>data.
              add_semantic E track_dir row data)))))) self" for d
  have i: "getitem E self i = rest [''idx'' \<mapsto> IntV i]"
    using assms by (simp add: getitem_def rest_def Let_def sbind_def)
  have j: "getitem E self j = rest [''idx'' \<mapsto> IntV j]"
    by (simp add: getitem_def rest_def Let_def)
  have ne: "''idx'' \<noteq> ''image''" "''idx'' \<noteq> ''cloud''"
      "''idx'' \<noteq> ''semantic_front''" "''idx'' \<noteq> ''semantic_back''"
    by simp_all
  have tail: "sbind (add_cloud E td row (x(''idx'' \<mapsto> v))) (add_semantic E td row) s
          = apfst (map_sum id (\<lambda>d. d(''idx'' \<mapsto> v)))
             (sbind (add_cloud E td row x) (add_semantic E td row) s)" for td row x v s
    by (rule sbind_upd2 [where g = "\<lambda>d. d(''idx'' \<mapsto> v)"])
      (rule add_cloud_upd [OF ne(2)], rule add_semantic_upd [OF ne(3,4)])
  have upd: "rest (d(''idx'' \<mapsto> v)) = apfst (map_sum id (\<lambda>d. d(''idx'' \<mapsto> v))) (rest d)" for d v
    unfolding rest_def
  proof (intro sbind_upd)
    fix row utm track track_dir s
    have tw: "(d(''idx'' \<mapsto> v))(''utm'' \<mapsto> Vec utm) = (d(''utm'' \<mapsto> Vec utm))(''idx'' \<mapsto> v)"
      by (simp add: fun_upd_twist)
    show "sbind (add_image E track_dir row ((d(''idx'' \<mapsto> v))(''utm'' \<mapsto> Vec utm)))
            (\<lambda>data. sbind (add_cloud E track_dir row data) (add_semantic E track_dir row)) s
          = apfst (map_sum id (\<lambda>d. d(''idx'' \<mapsto> v)))
             (sbind (add_image E track_dir row (d(''utm'' \<mapsto> Vec utm)))
               (\<lambda>data. sbind (add_cloud E track_dir row data) (add_semantic E track_dir row)) s)"
      unfolding tw
      by (rule sbind_upd2 [where g = "\<lambda>d. d(''idx'' \<mapsto> v)"])
        (rule add_image_upd [OF ne(1)], rule tail)
  qed
  have "[''idx'' \<mapsto> IntV i] = [''idx'' \<mapsto> IntV j](''idx'' \<mapsto> IntV i)"
    by simp
  with upd [of "[''idx'' \<mapsto> IntV j]" "IntV i"] i j show ?thesis
    by simp
qed

lemma ex_getitem_two: "getitem ex_env ex_self_two 1 = (Inr ex_sample_b, ex_self_two)"
proof -
  have row: "iloc (dataset_df ex_self_two) 1 = Inr ex_row_b"
    by (simp add: iloc_def ex_self_two_def)
  have utm: "utm_of ex_env ex_row_b = Inr [0x40000000, 0x3F800000]"
    by (simp add: utm_of_def getcol_def ex_row_b_def ex_env_def ex_as_float32_def)
  have track: "getcol ex_row_b ''track'' = Inr (IntCell 3)"
    by (simp add: getcol_def ex_row_b_def)
  have ts: "getcol ex_row_b ''lidar_ts'' = Inr (IntCell 1000)"
    by (simp add: getcol_def ex_row_b_def)
  have img: "add_image ex_env td r d ex_self_two = (Inr d, ex_self_two)" for td r d
    by (simp add: add_image_def ex_self_two_def ex_self_def)
  have sem: "add_semantic ex_env td r d ex_self_two = (Inr d, ex_self_two)" for td r d
    by (simp add: add_semantic_def ex_self_two_def ex_self_def)
  have cloud: "add_cloud ex_env ''/data/3'' ex_row_b d ex_self_two
                 = (Inr (d(''cloud'' \<mapsto> Cloud ex_cloud)), ex_self_two)" for d
    using ex_load
    by (simp add: add_cloud_def ex_self_two_def ex_self_def ts ex_env_def ex_py_str_def
          sbind_sreturn)
  have dir: "path_join ex_env (dataset_root ex_self_two)
               (path_of_str ex_env (py_str ex_env (IntCell 3))) = ''/data/3''"
    by (simp add: ex_env_def ex_self_two_def ex_self_def ex_py_str_def)
  show ?thesis
    by (simp add: getitem_def sbind_def row utm track dir img cloud sem ex_sample_b_def)
qed

lemma getitem_out_of_range:
  assumes "idx < - int (length (dataset_df self)) \<or> int (length (dataset_df self)) \<le> idx"
  shows "getitem E self idx = (Inl IndexError, self)"
  using iloc_out_of_range [OF assms] by (simp add: getitem_def sbind_def)

lemma getitem_negative:
  assumes "- int (length (dataset_df self)) \<le> idx" and "idx < 0"
  shows "getitem E self idx
           = apfst (map_sum id (\<lambda>d. d(''idx'' \<mapsto> IntV idx)))
               (getitem E self (idx + int (length (dataset_df self))))"
proof (rule getitem_same_row)
  from assms have "0 \<le> idx + int (length (dataset_df self))"
    and "idx + int (length (dataset_df self)) < int (length (dataset_df self))"
    by simp_all
  from iloc_valid [OF this] iloc_negative [OF assms]
  show "iloc (dataset_df self) idx = iloc (dataset_df self) (idx + int (length (dataset_df self)))"
    by simp
qed











text \<open>
  C6. For a valid index \<open>i\<close> (\<open>0 \<le> i < length\<close>), the sample that \<^verbatim>\<open>__getitem__\<close> returns
  has the key \<^verbatim>\<open>idx\<close> with the value \<open>i\<close>.
\<close>

theorem getitem_idx_valid:
  assumes "0 \<le> i" and "i < int (length (dataset_df self))"
    and "fst (getitem E self i) = Inr s"
  shows "s ''idx'' = Some (IntV i)"
  using assms(3) by (rule getitem_idx)

theorem getitem_idx_valid_witness:
  "(0::int) \<le> 0 \<and> 0 < int (length (dataset_df ex_self))
   \<and> fst (getitem ex_env ex_self 0) = Inr (ex_sample 0)
   \<and> ex_sample 0 ''idx'' = Some (IntV 0)"
proof -
  have len: "0 < int (length (dataset_df ex_self))"
    by (simp add: ex_self_def)
  have ret: "fst (getitem ex_env ex_self 0) = Inr (ex_sample 0)"
    by (simp add: ex_getitem)
  from getitem_idx_valid [of 0 ex_self ex_env "ex_sample 0"] len ret show ?thesis
    by simp
qed

text \<open>
  C7. For a valid index the sample's \<^verbatim>\<open>utm\<close> is a vector of exactly two float32 values:
  the row's northing and the row's easting, in this order, each as the cast to float32
  gives it.
\<close>

theorem getitem_utm:
  assumes "0 \<le> i" and "i < int (length (dataset_df self))"
    and "fst (getitem E self i) = Inr s"
  shows "\<exists>n e n32 e32.
           map_of (dataset_df self ! nat i) ''northing'' = Some n
         \<and> map_of (dataset_df self ! nat i) ''easting'' = Some e
         \<and> as_float32 E n = Inr n32 \<and> as_float32 E e = Inr e32
         \<and> s ''utm'' = Some (Vec [n32, e32])"
proof -
  from getitem_utm_row [OF assms(3)] obtain row utm where
    row: "iloc (dataset_df self) i = Inr row" and utm: "utm_of E row = Inr utm"
    and s: "s ''utm'' = Some (Vec utm)"
    by blast
  from row iloc_valid [OF assms(1,2)] have "row = dataset_df self ! nat i"
    by simp
  with utm_of_Inr [OF utm] s show ?thesis
    by auto
qed

theorem getitem_utm_witness:
  "(0::int) \<le> 0 \<and> 0 < int (length (dataset_df ex_self))
   \<and> fst (getitem ex_env ex_self 0) = Inr (ex_sample 0)
   \<and> map_of (dataset_df ex_self ! nat 0) ''northing'' = Some (FloatCell 0x3FF0000000000000)
   \<and> map_of (dataset_df ex_self ! nat 0) ''easting'' = Some (FloatCell 0x4000000000000000)
   \<and> as_float32 ex_env (FloatCell 0x3FF0000000000000) = Inr 0x3F800000
   \<and> as_float32 ex_env (FloatCell 0x4000000000000000) = Inr 0x40000000
   \<and> ex_sample 0 ''utm'' = Some (Vec [0x3F800000, 0x40000000])"
proof -
  have len: "0 < int (length (dataset_df ex_self))"
    by (simp add: ex_self_def)
  have ret: "fst (getitem ex_env ex_self 0) = Inr (ex_sample 0)"
    by (simp add: ex_getitem)
  have n: "map_of (dataset_df ex_self ! nat 0) ''northing'' = Some (FloatCell 0x3FF0000000000000)"
    and e: "map_of (dataset_df ex_self ! nat 0) ''easting'' = Some (FloatCell 0x4000000000000000)"
    by (simp_all add: ex_self_def ex_row_def)
  have c: "as_float32 ex_env (FloatCell 0x3FF0000000000000) = Inr 0x3F800000"
      "as_float32 ex_env (FloatCell 0x4000000000000000) = Inr 0x40000000"
    by (simp_all add: ex_env_def ex_as_float32_def)
  from getitem_utm [of 0 ex_self ex_env "ex_sample 0"] len ret
  obtain n' e' n32 e32 where
    "map_of (dataset_df ex_self ! nat 0) ''northing'' = Some n'"
    "map_of (dataset_df ex_self ! nat 0) ''easting'' = Some e'"
    "as_float32 ex_env n' = Inr n32" "as_float32 ex_env e' = Inr e32"
    "ex_sample 0 ''utm'' = Some (Vec [n32, e32])"
    by auto
  with n e c have "ex_sample 0 ''utm'' = Some (Vec [0x3F800000, 0x40000000])"
    by simp
  with len ret n e c show ?thesis
    by simp
qed

text \<open>
  C3. Whatever the constructor's arguments and whatever was assigned before, the
  constructed object has the cloud subdirectory \<^verbatim>\<open>Path("lidar")\<close>; so with the cloud
  modality every returned sample holds as \<^verbatim>\<open>cloud\<close> the cloud loaded from
  \<^verbatim>\<open>root / str(track) / "lidar" / "{lidar_ts}.bin"\<close>. The assignment of \<^verbatim>\<open>"pcd"\<close> has no
  effect on the constructed object.
\<close>

theorem clouds_subdir_fixed:
  assumes "PhystechCampus_init E base subset_arg images_arg front_arg back_arg mink = Inr self"
  shows "clouds_subdir self = Some (path_of_str E ''lidar'')
       \<and> (\<forall>idx s. ''cloud'' \<in> set (modalities self) \<longrightarrow> fst (getitem E self idx) = Inr s \<longrightarrow>
            (\<exists>row track ts pc.
                iloc (dataset_df self) idx = Inr row
              \<and> getcol row ''track'' = Inr track \<and> getcol row ''lidar_ts'' = Inr ts
              \<and> load_pc (fromfile E)
                  (path_join E
                    (path_join E
                      (path_join E (dataset_root self) (path_of_str E (py_str E track)))
                      (path_of_str E ''lidar''))
                    (path_of_str E (py_str E ts @ ''.bin''))) = Inr pc
              \<and> s ''cloud'' = Some (Cloud pc)))"
proof (intro conjI allI impI)
  show sub: "clouds_subdir self = Some (path_of_str E ''lidar'')"
    using assms by (rule init_clouds_subdir)
  fix idx s
  assume m: "''cloud'' \<in> set (modalities self)" and ret: "fst (getitem E self idx) = Inr s"
  from ret obtain row utm track d1 s1 d2 s2 s3 where
    row: "iloc (dataset_df self) idx = Inr row"
    and track: "getcol row ''track'' = Inr track"
    and d1: "add_image E (path_join E (dataset_root self) (path_of_str E (py_str E track))) row
       [''idx'' \<mapsto> IntV idx, ''utm'' \<mapsto> Vec utm] self = (Inr d1, s1)"
    and d2: "add_cloud E (path_join E (dataset_root self) (path_of_str E (py_str E track))) row d1 s1
       = (Inr d2, s2)"
    and s: "add_semantic E (path_join E (dataset_root self) (path_of_str E (py_str E track))) row d2 s2
       = (Inr s, s3)"
    by (rule getitem_Inr)
  from add_image_frame [of self E _ row _] d1 have f1: "only_transforms_changed self s1"
    by (metis snd_conv)
  from otc_fields(4) [OF f1] m have m1: "''cloud'' \<in> set (modalities s1)"
    by simp
  from otc_fields(6) [OF f1] sub have sub1: "clouds_subdir s1 = Some (path_of_str E ''lidar'')"
    by simp
  from add_cloud_Inr [OF d2 m1 sub1] obtain ts pc where
    ts: "getcol row ''lidar_ts'' = Inr ts"
    and pc: "load_pc (fromfile E)
                  (path_join E
                    (path_join E
                      (path_join E (dataset_root self) (path_of_str E (py_str E track)))
                      (path_of_str E ''lidar''))
                    (path_of_str E (py_str E ts @ ''.bin''))) = Inr pc"
    and d2_eq: "d2 = d1(''cloud'' \<mapsto> Cloud pc)"
    by blast
  have "s ''cloud'' = d2 ''cloud''"
    using add_semantic_other [OF s] by simp
  with d2_eq have "s ''cloud'' = Some (Cloud pc)"
    by simp
  with row track ts pc show "\<exists>row track ts pc.
                iloc (dataset_df self) idx = Inr row
              \<and> getcol row ''track'' = Inr track \<and> getcol row ''lidar_ts'' = Inr ts
              \<and> load_pc (fromfile E)
                  (path_join E
                    (path_join E
                      (path_join E (dataset_root self) (path_of_str E (py_str E track)))
                      (path_of_str E ''lidar''))
                    (path_of_str E (py_str E ts @ ''.bin''))) = Inr pc
              \<and> s ''cloud'' = Some (Cloud pc)"
    by blast
qed

theorem clouds_subdir_fixed_witness:
  "PhystechCampus_init ex_env (Inr (ex_base ''test'' [''cloud''])) ''test''
     (Some (PyStr ''front_cam'')) (Some (PyStr ''labels/front_cam''))
     (Some (PyStr ''labels/back_cam'')) (Some 0x3FE0000000000000) = Inr ex_self
   \<and> clouds_subdir ex_self = Some (path_of_str ex_env ''lidar'')
   \<and> ''cloud'' \<in> set (modalities ex_self)
   \<and> fst (getitem ex_env ex_self 0) = Inr (ex_sample 0)
   \<and> load_pc (fromfile ex_env) ''/data/3/lidar/1000.bin'' = Inr ex_cloud
   \<and> ex_sample 0 ''cloud'' = Some (Cloud ex_cloud)"
proof -
  note fixed = clouds_subdir_fixed [OF ex_init]
  then have "clouds_subdir ex_self = Some (path_of_str ex_env ''lidar'')"
    by blast
  moreover have "''cloud'' \<in> set (modalities ex_self)"
    by (simp add: ex_self_def)
  moreover have "fst (getitem ex_env ex_self 0) = Inr (ex_sample 0)"
    by (simp add: ex_getitem)
  moreover have "load_pc (fromfile ex_env) ''/data/3/lidar/1000.bin'' = Inr ex_cloud"
    using ex_load by (simp add: ex_env_def)
  moreover have "ex_sample 0 ''cloud'' = Some (Cloud ex_cloud)"
    by (simp add: ex_sample_def)
  ultimately show ?thesis
    using ex_init by simp
qed

text \<open>
  C5. With the semantic modality, a front subdirectory given and the back subdirectory
  given as \<^verbatim>\<open>None\<close> (and not set by the superclass), every returned sample has the key
  \<^verbatim>\<open>semantic_front\<close> and does not have the key \<^verbatim>\<open>semantic_back\<close>.
\<close>

theorem semantic_front_only:
  assumes "PhystechCampus_init E (Inr b) subset_arg images_arg (Some front) None mink = Inr self"
    and "''semantic'' \<in> set (modalities b)"
    and "truthy (Some front)"
    and "semantic_back_subdir b = None"
    and "fst (getitem E self idx) = Inr s"
  shows "s ''semantic_front'' \<noteq> None \<and> s ''semantic_back'' = None"
proof -
  note sem = init_semantic [OF assms(1,2,3)]
  from init_frame(1) [OF assms(1)] assms(2) have m: "''semantic'' \<in> set (modalities self)"
    by simp
  from sem(2) assms(4) have no_back: "semantic_back_subdir self = None"
    by simp
  from assms(5) obtain row utm track d1 s1 d2 s2 s3 where
    d1: "add_image E (path_join E (dataset_root self) (path_of_str E (py_str E track))) row
       [''idx'' \<mapsto> IntV idx, ''utm'' \<mapsto> Vec utm] self = (Inr d1, s1)"
    and d2: "add_cloud E (path_join E (dataset_root self) (path_of_str E (py_str E track))) row d1 s1
       = (Inr d2, s2)"
    and s: "add_semantic E (path_join E (dataset_root self) (path_of_str E (py_str E track))) row d2 s2
       = (Inr s, s3)"
    by (rule getitem_Inr)
  from add_image_frame [of self E _ row _] d1 have f1: "only_transforms_changed self s1"
    by (metis snd_conv)
  from add_cloud_frame [of s1 E _ row _] d2 have f2: "only_transforms_changed s1 s2"
    by (metis snd_conv)
  note f = otc_trans [OF f1 f2]
  from otc_fields(4) [OF f] m have m2: "''semantic'' \<in> set (modalities s2)"
    by simp
  from otc_fields(7) [OF f] sem(1) have front2: "semantic_front_subdir s2 = Some (mkPath E front)"
    by simp
  from otc_fields(8) [OF f] no_back have back2: "semantic_back_subdir s2 = None"
    by simp
  note fo = add_semantic_front_only [OF s m2 front2 back2]
  have "d2 ''semantic_back'' = d1 ''semantic_back''"
    using add_cloud_other [OF d2] by simp
  also have "\<dots> = [''idx'' \<mapsto> IntV idx, ''utm'' \<mapsto> Vec utm] ''semantic_back''"
    using add_image_other [OF d1] by simp
  also have "\<dots> = None"
    by simp
  finally show ?thesis
    using fo by simp
qed

theorem semantic_front_only_witness:
  "PhystechCampus_init ex_env (Inr (ex_base ''val'' [''semantic''])) ''val''
     (Some (PyStr ''front_cam'')) (Some (PyStr ''labels/front_cam''))
     None (Some 0x3FE0000000000000) = Inr ex_self_semantic
   \<and> ''semantic'' \<in> set (modalities (ex_base ''val'' [''semantic'']))
   \<and> truthy (Some (PyStr ''labels/front_cam'' :: string pathlike))
   \<and> semantic_back_subdir (ex_base ''val'' [''semantic'']) = None
   \<and> fst (getitem ex_env ex_self_semantic 0) = Inr ex_sample_semantic
   \<and> ex_sample_semantic ''semantic_front'' \<noteq> None
   \<and> ex_sample_semantic ''semantic_back'' = None"
proof -
  have m: "''semantic'' \<in> set (modalities (ex_base ''val'' [''semantic'']))"
    by (simp add: ex_base_def)
  have t: "truthy (Some (PyStr ''labels/front_cam'' :: string pathlike))"
    by (simp add: truthy_def)
  have b: "semantic_back_subdir (ex_base ''val'' [''semantic'']) = None"
    by (simp add: ex_base_def)
  from semantic_front_only [OF ex_init_semantic m t b ex_getitem_semantic]
  show ?thesis
    using ex_init_semantic m t b ex_getitem_semantic by simp
qed

text \<open>
  C4 says that every index outside \<open>0 \<le> index < length\<close> makes \<^verbatim>\<open>__getitem__\<close> fail. It
  does not hold as stated: \<^verbatim>\<open>iloc\<close> takes the index \<open>-1\<close> for the last row, and on the
  one-row example the call returns a sample whose \<^verbatim>\<open>idx\<close> is \<open>-1\<close>.
\<close>

theorem getitem_index_error_counterexample:
  "\<not> (0 \<le> (- 1 :: int) \<and> (- 1 :: int) < int (length (dataset_df ex_self)))
   \<and> fst (getitem ex_env ex_self (- 1)) = Inr (ex_sample (- 1))"
  by (simp add: ex_getitem)

text \<open>
  C4, amended. An index below \<open>-length\<close> or at least \<open>length\<close> makes \<^verbatim>\<open>__getitem__\<close> raise
  IndexError, the object left as it was. For an index with \<open>-length \<le> index < 0\<close> the call
  does what the call at \<open>length + index\<close> does, the same exception or the same sample and
  the same object afterwards, except that the sample's \<^verbatim>\<open>idx\<close> is the index given; so the
  row read is the one at position \<open>length + index\<close>, and \<^verbatim>\<open>utm\<close> comes from that row.
\<close>

theorem getitem_index_error:
  "(idx < - int (length (dataset_df self)) \<or> int (length (dataset_df self)) \<le> idx
      \<longrightarrow> getitem E self idx = (Inl IndexError, self))
   \<and> (- int (length (dataset_df self)) \<le> idx \<and> idx < 0 \<longrightarrow>
        getitem E self idx =
          (case getitem E self (idx + int (length (dataset_df self))) of
             (Inl e, self') \<Rightarrow> (Inl e, self')
           | (Inr s, self') \<Rightarrow> (Inr (s(''idx'' \<mapsto> IntV idx)), self'))
      \<and> (\<forall>s. fst (getitem E self idx) = Inr s \<longrightarrow>
            (\<exists>utm. utm_of E (dataset_df self ! nat (idx + int (length (dataset_df self)))) = Inr utm
                 \<and> s ''utm'' = Some (Vec utm) \<and> s ''idx'' = Some (IntV idx))))"
proof (intro conjI impI allI)
  assume "idx < - int (length (dataset_df self)) \<or> int (length (dataset_df self)) \<le> idx"
  then show "getitem E self idx = (Inl IndexError, self)"
    by (rule getitem_out_of_range)
next
  assume neg: "- int (length (dataset_df self)) \<le> idx \<and> idx < 0"
  then have eq: "getitem E self idx
           = apfst (map_sum id (\<lambda>d. d(''idx'' \<mapsto> IntV idx)))
               (getitem E self (idx + int (length (dataset_df self))))"
    by (simp add: getitem_negative)
  show "getitem E self idx =
          (case getitem E self (idx + int (length (dataset_df self))) of
             (Inl e, self') \<Rightarrow> (Inl e, self')
           | (Inr s, self') \<Rightarrow> (Inr (s(''idx'' \<mapsto> IntV idx)), self'))"
    unfolding eq by (simp split: prod.splits sum.splits)
  fix s
  assume ret: "fst (getitem E self idx) = Inr s"
  from getitem_utm_row [OF ret] obtain row utm where
    row: "iloc (dataset_df self) idx = Inr row" and utm: "utm_of E row = Inr utm"
    and s: "s ''utm'' = Some (Vec utm)"
    by blast
  from neg row have "row = dataset_df self ! nat (idx + int (length (dataset_df self)))"
    by (simp add: iloc_negative)
  with utm s getitem_idx [OF ret]
  show "\<exists>utm. utm_of E (dataset_df self ! nat (idx + int (length (dataset_df self)))) = Inr utm
                 \<and> s ''utm'' = Some (Vec utm) \<and> s ''idx'' = Some (IntV idx)"
    by blast
qed

theorem getitem_index_error_witness:
  "int (length (dataset_df ex_self_two)) \<le> 2
   \<and> getitem ex_env ex_self_two 2 = (Inl IndexError, ex_self_two)
   \<and> (- 3 :: int) < - int (length (dataset_df ex_self_two))
   \<and> getitem ex_env ex_self_two (- 3) = (Inl IndexError, ex_self_two)
   \<and> - int (length (dataset_df ex_self_two)) \<le> - 1 \<and> (- 1 :: int) < 0
   \<and> getitem ex_env ex_self_two 1 = (Inr ex_sample_b, ex_self_two)
   \<and> getitem ex_env ex_self_two (- 1) = (Inr (ex_sample_b(''idx'' \<mapsto> IntV (- 1))), ex_self_two)
   \<and> utm_of ex_env (dataset_df ex_self_two ! 1) = Inr [0x40000000, 0x3F800000]"
proof -
  have len: "int (length (dataset_df ex_self_two)) = 2"
    by (simp add: ex_self_two_def)
  note err = getitem_index_error [THEN conjunct1, THEN mp]
  have a: "getitem ex_env ex_self_two 2 = (Inl IndexError, ex_self_two)"
    by (rule err) (simp add: len)
  have b: "getitem ex_env ex_self_two (- 3) = (Inl IndexError, ex_self_two)"
    by (rule err) (simp add: len)
  have "getitem ex_env ex_self_two (- 1) =
          (case getitem ex_env ex_self_two (- 1 + int (length (dataset_df ex_self_two))) of
             (Inl e, self') \<Rightarrow> (Inl e, self')
           | (Inr s, self') \<Rightarrow> (Inr (s(''idx'' \<mapsto> IntV (- 1))), self'))"
    by (rule getitem_index_error [THEN conjunct2, THEN mp, THEN conjunct1]) (simp add: len)
  then have c: "getitem ex_env ex_self_two (- 1)
                  = (Inr (ex_sample_b(''idx'' \<mapsto> IntV (- 1))), ex_self_two)"
    by (simp add: len ex_getitem_two)
  have d: "utm_of ex_env (dataset_df ex_self_two ! 1) = Inr [0x40000000, 0x3F800000]"
    by (simp add: ex_self_two_def utm_of_def getcol_def ex_row_b_def ex_env_def ex_as_float32_def)
  have l1: "int (length (dataset_df ex_self_two)) \<le> 2"
    and l2: "(- 3 :: int) < - int (length (dataset_df ex_self_two))"
    and l3: "- int (length (dataset_df ex_self_two)) \<le> - 1"
    and l4: "(- 1 :: int) < 0"
    by (simp_all add: len)
  show ?thesis
    by (intro conjI) (rule l1 a l2 b l3 l4 ex_getitem_two c d)+
qed




end
